theory Spec2Isabelle
  imports Complex_Main "HOL-Library.AList"
begin

section \<open>JavaScript values and the built-in operations the sources rely on\<close>

text \<open>
  The values that reach table cells, tokens and result rows are JavaScript primitives.
  A number is modelled as an exact rational, with the three non-finite numbers added
  (\<open>JNaN\<close>, \<open>JInf True\<close> for \<open>Infinity\<close>, \<open>JInf False\<close> for \<open>-Infinity\<close>);
  the rounding of IEEE doubles and the sign of zero are not represented. Strings are
  lists of 8-bit characters, so text outside ASCII is outside this development.
\<close>

datatype jsval =
    JUndefined
  | JNull
  | JBool bool
  | JNum rat
  | JNaN
  | JInf bool
  | JStr string

text \<open>\<open>typeof v\<close>.\<close>

fun js_typeof :: "jsval \<Rightarrow> string" where
  "js_typeof JUndefined = ''undefined''"
| "js_typeof JNull = ''object''"
| "js_typeof (JBool b) = ''boolean''"
| "js_typeof (JNum q) = ''number''"
| "js_typeof JNaN = ''number''"
| "js_typeof (JInf s) = ''number''"
| "js_typeof (JStr s) = ''string''"

text \<open>Truthiness, as tested by \<open>!v\<close>, \<open>a || b\<close> and \<open>a && b\<close>.\<close>

fun js_truthy :: "jsval \<Rightarrow> bool" where
  "js_truthy JUndefined = False"
| "js_truthy JNull = False"
| "js_truthy (JBool b) = b"
| "js_truthy (JNum q) = (q \<noteq> 0)"
| "js_truthy JNaN = False"
| "js_truthy (JInf s) = True"
| "js_truthy (JStr s) = (s \<noteq> [])"

text \<open>\<open>v === null || v === undefined\<close>.\<close>

fun js_nullish :: "jsval \<Rightarrow> bool" where
  "js_nullish JUndefined = True"
| "js_nullish JNull = True"
| "js_nullish v = False"

subsection \<open>Characters\<close>

definition is_digit :: "char \<Rightarrow> bool" where
  "is_digit c = (48 \<le> (of_char c :: nat) \<and> (of_char c :: nat) \<le> 57)"

definition is_alpha :: "char \<Rightarrow> bool" where
  "is_alpha c = ((65 \<le> (of_char c :: nat) \<and> (of_char c :: nat) \<le> 90)
               \<or> (97 \<le> (of_char c :: nat) \<and> (of_char c :: nat) \<le> 122))"

text \<open>The class \<open>\s\<close> on 8-bit characters: tab, line feed, vertical tab, form feed,
  carriage return and space.\<close>

definition is_space :: "char \<Rightarrow> bool" where
  "is_space c = ((9 \<le> (of_char c :: nat) \<and> (of_char c :: nat) \<le> 13) \<or> (of_char c :: nat) = 32)"

text \<open>The class \<open>\w\<close>: letters, digits and the underscore.\<close>

definition is_word :: "char \<Rightarrow> bool" where
  "is_word c = (is_alpha c \<or> is_digit c \<or> c = CHR ''_'')"

definition lower_char :: "char \<Rightarrow> char" where
  "lower_char c = (if 65 \<le> (of_char c :: nat) \<and> (of_char c :: nat) \<le> 90
                   then char_of ((of_char c :: nat) + 32) else c)"

text \<open>\<open>s.toLowerCase()\<close> on ASCII text.\<close>

definition toLowerCase :: "string \<Rightarrow> string" where
  "toLowerCase s = map lower_char s"

subsection \<open>Numbers and strings\<close>

definition digit_val :: "char \<Rightarrow> nat" where
  "digit_val c = (of_char c :: nat) - 48"

definition digits_to_nat :: "string \<Rightarrow> nat" where
  "digits_to_nat ds = foldl (\<lambda>a c. 10 * a + digit_val c) 0 ds"

definition digit_char :: "nat \<Rightarrow> char" where
  "digit_char d = char_of (48 + d)"

fun digits_of_nat :: "nat \<Rightarrow> string" where
  "digits_of_nat n =
     (if n < 10 then [digit_char n] else digits_of_nat (n div 10) @ [digit_char (n mod 10)])"

declare digits_of_nat.simps [simp del]

text \<open>The decimal digits of a fraction \<open>0 \<le> q < 1\<close>, at most \<open>k\<close> of them.\<close>

fun frac_digits :: "nat \<Rightarrow> rat \<Rightarrow> string" where
  "frac_digits 0 q = []"
| "frac_digits (Suc k) q =
     (if q = 0 then []
      else digit_char (nat \<lfloor>q * 10\<rfloor>) # frac_digits k (q * 10 - of_int \<lfloor>q * 10\<rfloor>))"

text \<open>
  \<open>String(x)\<close> for a finite number: the decimal numeral, with a fractional part when
  the number is not an integer. JavaScript prints the shortest numeral that reads back as
  the same double and switches to exponent notation for very large and very small
  magnitudes; the rendering below agrees with it on integers below \<open>10^21\<close> and on
  decimals with up to 17 fractional digits.
\<close>

definition rat_to_string :: "rat \<Rightarrow> string" where
  "rat_to_string q =
     (let a = \<bar>q\<bar>; ip = \<lfloor>a\<rfloor>; fp = a - of_int ip
      in (if q < 0 then ''-'' else '''') @ digits_of_nat (nat ip)
         @ (if fp = 0 then '''' else ''.'' @ frac_digits 17 fp))"

text \<open>\<open>String(v)\<close>, also the conversion inside template literals.\<close>

fun js_to_string :: "jsval \<Rightarrow> string" where
  "js_to_string JUndefined = ''undefined''"
| "js_to_string JNull = ''null''"
| "js_to_string (JBool b) = (if b then ''true'' else ''false'')"
| "js_to_string (JNum q) = rat_to_string q"
| "js_to_string JNaN = ''NaN''"
| "js_to_string (JInf s) = (if s then ''Infinity'' else ''-Infinity'')"
| "js_to_string (JStr s) = s"

text \<open>
  The numeral prefix read by \<open>parseFloat\<close>: an optional sign, then \<open>Infinity\<close> or
  digits with an optional fraction; what follows is ignored. Exponents are not read here.
\<close>

definition starts_with :: "string \<Rightarrow> string \<Rightarrow> bool" where
  "starts_with s p = (take (length p) s = p)"

definition parse_unsigned :: "string \<Rightarrow> jsval" where
  "parse_unsigned s =
     (if starts_with s ''Infinity'' then JInf True
      else let ip = takeWhile is_digit s;
               r = dropWhile is_digit s;
               fp = (case r of [] \<Rightarrow> [] | c # r' \<Rightarrow> if c = CHR ''.'' then takeWhile is_digit r' else [])
           in if ip = [] \<and> fp = [] then JNaN
              else JNum (of_nat (digits_to_nat ip) + of_nat (digits_to_nat fp) / 10 ^ length fp))"

fun js_negate :: "jsval \<Rightarrow> jsval" where
  "js_negate (JNum q) = JNum (- q)"
| "js_negate (JInf s) = JInf (\<not> s)"
| "js_negate v = JNaN"

definition parseFloat :: "string \<Rightarrow> jsval" where
  "parseFloat s =
     (case dropWhile is_space s of
        [] \<Rightarrow> JNaN
      | c # r \<Rightarrow>
          if c = CHR ''-'' then js_negate (parse_unsigned r)
          else if c = CHR ''+'' then parse_unsigned r
          else parse_unsigned (c # r))"

text \<open>
  The conversion of a string to a number inside comparisons and arithmetic: the whole
  trimmed string has to be a numeral, and the empty string is \<open>0\<close>. Hexadecimal, octal,
  binary and exponent numerals are read as \<open>NaN\<close> here.
\<close>

definition trim :: "string \<Rightarrow> string" where
  "trim s = rev (dropWhile is_space (rev (dropWhile is_space s)))"

definition whole_unsigned :: "string \<Rightarrow> jsval" where
  "whole_unsigned s =
     (if s = ''Infinity'' then JInf True
      else let ip = takeWhile is_digit s;
               r = dropWhile is_digit s
           in (case r of
                 [] \<Rightarrow> if ip = [] then JNaN else JNum (of_nat (digits_to_nat ip))
               | c # fp \<Rightarrow>
                   if c = CHR ''.'' \<and> list_all is_digit fp \<and> \<not> (ip = [] \<and> fp = [])
                   then JNum (of_nat (digits_to_nat ip) + of_nat (digits_to_nat fp) / 10 ^ length fp)
                   else JNaN))"

definition string_to_number :: "string \<Rightarrow> jsval" where
  "string_to_number s =
     (case trim s of
        [] \<Rightarrow> JNum 0
      | c # r \<Rightarrow>
          if c = CHR ''-'' then js_negate (whole_unsigned r)
          else if c = CHR ''+'' then whole_unsigned r
          else whole_unsigned (c # r))"

text \<open>The conversion of any primitive to a number.\<close>

fun js_to_number :: "jsval \<Rightarrow> jsval" where
  "js_to_number JUndefined = JNaN"
| "js_to_number JNull = JNum 0"
| "js_to_number (JBool b) = JNum (if b then 1 else 0)"
| "js_to_number (JStr s) = string_to_number s"
| "js_to_number v = v"

subsection \<open>Comparison\<close>

fun num_eq :: "jsval \<Rightarrow> jsval \<Rightarrow> bool" where
  "num_eq (JNum a) (JNum b) = (a = b)"
| "num_eq (JInf s) (JInf t) = (s = t)"
| "num_eq a b = False"

fun num_less :: "jsval \<Rightarrow> jsval \<Rightarrow> bool" where
  "num_less (JNum a) (JNum b) = (a < b)"
| "num_less (JNum a) (JInf t) = t"
| "num_less (JInf s) (JNum b) = (\<not> s)"
| "num_less (JInf s) (JInf t) = (\<not> s \<and> t)"
| "num_less a b = False"

fun is_number :: "jsval \<Rightarrow> bool" where
  "is_number (JNum a) = True"
| "is_number (JInf s) = True"
| "is_number v = False"

text \<open>Strings compare by their character codes, position by position.\<close>

fun str_less :: "string \<Rightarrow> string \<Rightarrow> bool" where
  "str_less [] [] = False"
| "str_less [] (y # ys) = True"
| "str_less (x # xs) [] = False"
| "str_less (x # xs) (y # ys) =
     (if (of_char x :: nat) < of_char y then True
      else if (of_char y :: nat) < of_char x then False
      else str_less xs ys)"

text \<open>\<open>a == b\<close> on primitives.\<close>

definition js_loose_eq :: "jsval \<Rightarrow> jsval \<Rightarrow> bool" where
  "js_loose_eq a b =
     (if js_nullish a \<or> js_nullish b then js_nullish a \<and> js_nullish b
      else (case (a, b) of
              (JStr s, JStr t) \<Rightarrow> s = t
            | _ \<Rightarrow> num_eq (js_to_number a) (js_to_number b)))"

text \<open>\<open>a === b\<close> on primitives: the same value, and \<open>NaN\<close> equals nothing.\<close>

definition js_strict_eq :: "jsval \<Rightarrow> jsval \<Rightarrow> bool" where
  "js_strict_eq a b = (a = b \<and> a \<noteq> JNaN)"

text \<open>\<open>a < b\<close> and \<open>a <= b\<close>; \<open>a > b\<close> is \<open>js_less b a\<close> and \<open>a >= b\<close> is \<open>js_le b a\<close>.\<close>

definition js_less :: "jsval \<Rightarrow> jsval \<Rightarrow> bool" where
  "js_less a b =
     (case (a, b) of
        (JStr s, JStr t) \<Rightarrow> str_less s t
      | _ \<Rightarrow> num_less (js_to_number a) (js_to_number b))"

definition js_le :: "jsval \<Rightarrow> jsval \<Rightarrow> bool" where
  "js_le a b =
     (case (a, b) of
        (JStr s, JStr t) \<Rightarrow> \<not> str_less t s
      | _ \<Rightarrow> is_number (js_to_number a) \<and> is_number (js_to_number b)
             \<and> \<not> num_less (js_to_number b) (js_to_number a))"

subsection \<open>Arithmetic\<close>

fun num_add :: "jsval \<Rightarrow> jsval \<Rightarrow> jsval" where
  "num_add (JNum a) (JNum b) = JNum (a + b)"
| "num_add (JNum a) (JInf t) = JInf t"
| "num_add (JInf s) (JNum b) = JInf s"
| "num_add (JInf s) (JInf t) = (if s = t then JInf s else JNaN)"
| "num_add a b = JNaN"

fun num_mul :: "jsval \<Rightarrow> jsval \<Rightarrow> jsval" where
  "num_mul (JNum a) (JNum b) = JNum (a * b)"
| "num_mul (JNum a) (JInf t) = (if a = 0 then JNaN else JInf (t = (0 < a)))"
| "num_mul (JInf s) (JNum b) = (if b = 0 then JNaN else JInf (s = (0 < b)))"
| "num_mul (JInf s) (JInf t) = JInf (s = t)"
| "num_mul a b = JNaN"

fun num_div :: "jsval \<Rightarrow> jsval \<Rightarrow> jsval" where
  "num_div (JNum a) (JNum b) =
     (if b = 0 then (if a = 0 then JNaN else JInf (0 < a)) else JNum (a / b))"
| "num_div (JNum a) (JInf t) = JNum 0"
| "num_div (JInf s) (JNum b) = JInf (s = (0 \<le> b))"
| "num_div a b = JNaN"

text \<open>\<open>a + b\<close> concatenates as soon as one operand is a string.\<close>

definition js_add :: "jsval \<Rightarrow> jsval \<Rightarrow> jsval" where
  "js_add a b =
     (if js_typeof a = ''string'' \<or> js_typeof b = ''string''
      then JStr (js_to_string a @ js_to_string b)
      else num_add (js_to_number a) (js_to_number b))"

definition js_sub :: "jsval \<Rightarrow> jsval \<Rightarrow> jsval" where
  "js_sub a b = num_add (js_to_number a) (js_negate (js_to_number b))"

definition js_mul :: "jsval \<Rightarrow> jsval \<Rightarrow> jsval" where
  "js_mul a b = num_mul (js_to_number a) (js_to_number b)"

definition js_div :: "jsval \<Rightarrow> jsval \<Rightarrow> jsval" where
  "js_div a b = num_div (js_to_number a) (js_to_number b)"

subsection \<open>Objects\<close>

text \<open>
  A plain object is an association list with distinct keys, in insertion order: the
  order is what \<open>Object.keys\<close>, \<open>Object.values\<close> and \<open>Object.entries\<close> enumerate.
  Reading an absent key gives \<open>undefined\<close>; writing an existing key keeps its place.
  (No key of the sources is an array index, and the properties inherited from
  \<open>Object.prototype\<close> are not represented.)
\<close>

type_synonym 'v obj = "(string \<times> 'v) list"

definition obj_set :: "'v obj \<Rightarrow> string \<Rightarrow> 'v \<Rightarrow> 'v obj" where
  "obj_set ob k v = AList.update k v ob"

definition obj_get :: "jsval obj \<Rightarrow> string \<Rightarrow> jsval" where
  "obj_get ob k = (case map_of ob k of None \<Rightarrow> JUndefined | Some v \<Rightarrow> v)"

text \<open>\<open>{ ...a, ...b }\<close>, and \<open>Object.assign(a, b)\<close>.\<close>

definition obj_spread :: "'v obj \<Rightarrow> 'v obj \<Rightarrow> 'v obj" where
  "obj_spread a b = foldl (\<lambda>acc (k, v). obj_set acc k v) a b"

section \<open>Query executor: LIKE\<close>

text \<open>
  \<open>evaluateLike\<close> escapes the regular-expression metacharacters of the pattern, turns
  \<open>%\<close> into \<open>.*\<close> and \<open>_\<close> into \<open>.\<close>, anchors the result and matches it ignoring
  case. The expression so built is a sequence of three kinds of items; \<open>.\<close> does not
  match a line terminator.
\<close>

datatype like_item = LikeChar char | LikeAny | LikeAnySeq

definition compile_like :: "string \<Rightarrow> like_item list" where
  "compile_like pattern =
     map (\<lambda>c. if c = CHR ''%'' then LikeAnySeq else if c = CHR ''_'' then LikeAny else LikeChar c)
         pattern"

definition is_line_terminator :: "char \<Rightarrow> bool" where
  "is_line_terminator c = (c = CHR 0x0A \<or> c = CHR 0x0D)"

fun like_match :: "like_item list \<Rightarrow> string \<Rightarrow> bool" where
  "like_match [] s = (s = [])"
| "like_match (LikeChar c # ps) s =
     (case s of [] \<Rightarrow> False | d # r \<Rightarrow> lower_char c = lower_char d \<and> like_match ps r)"
| "like_match (LikeAny # ps) s =
     (case s of [] \<Rightarrow> False | d # r \<Rightarrow> \<not> is_line_terminator d \<and> like_match ps r)"
| "like_match (LikeAnySeq # ps) s =
     (like_match ps s
      \<or> (case s of [] \<Rightarrow> False | d # r \<Rightarrow> \<not> is_line_terminator d \<and> like_match (LikeAnySeq # ps) r))"

fun evaluateLike :: "jsval \<Rightarrow> jsval \<Rightarrow> bool" where
  "evaluateLike (JStr v) (JStr pattern) = like_match (compile_like pattern) v"
| "evaluateLike v pattern = False"

section \<open>Errors\<close>

text \<open>
  Every \<open>throw new Error(...)\<close> of the sources is a constructor here, carrying what the
  message interpolates. \<open>OutOfFuel\<close> is raised by no source line: it is the answer of
  the parser model when its recursion bound is used up.
\<close>

datatype token_type =
    SELECT | FROM | WHERE | JOIN | INNER | LEFT | RIGHT | ON | AND | OR | ORDER | BY
  | GROUP | HAVING | INSERT | INTO | VALUES | UPDATE | SET | DELETE | CREATE | TABLE
  | DATABASE | USE
  | PRIMARY | KEY | FOREIGN | REFERENCES | UNIQUE | AUTO | INCREMENT | NOT | NULL
  | DEFAULT
  | EQUALS | NOT_EQUALS | LESS_THAN | GREATER_THAN | LESS_EQUAL | GREATER_EQUAL | LIKE
  | COMMA | DOT | COLON | SEMICOLON | OPEN_PAREN | CLOSE_PAREN | ASTERISK
  | IDENTIFIER | NUMBER | STRING
  | EOF | WHITESPACE

text \<open>The diagnostics of the constraint validator, one per message text.\<close>

datatype violation =
    NotNullViolation string
  | PrimaryKeyNull string
  | PrimaryKeyDuplicate string jsval
  | UniqueDuplicate string jsval
  | ForeignKeyInvalid string jsval

datatype error =
    LexUnterminatedString nat
  | LexUnexpectedChar nat char
  | SyntaxExpected nat token_type token_type
  | SyntaxUnknownCommand nat jsval
  | SyntaxUnexpectedExpression nat jsval
  | SyntaxCreateTarget nat
  | SyntaxTableConstraint nat
  | NoDatabaseSelected
  | DatabaseNotFound string
  | TableNotFound string
  | ArityMismatch
  | InvalidType string string
  | UnsupportedOperator string
  | UnsupportedMathOperator string
  | UnsupportedExpression string
  | ConstraintViolations "violation list"
  | NotImplemented
  | TypeError
  | OutOfFuel

section \<open>Lexer\<close>

datatype token = Token (tok_type: token_type) (tok_value: jsval) (tok_position: nat)

text \<open>
  The lexer object: the lower-cased input, the cursor and the trailing window of emitted
  tokens. The field \<open>currentChar\<close> of the source always holds \<open>input[position]\<close>, or
  \<open>null\<close> past the end, so it is read off the other two fields here.
\<close>

record lexer =
  input :: string
  position :: nat
  tokenHistory :: "token list"

definition new_lexer :: "string \<Rightarrow> lexer" where
  "new_lexer inp = \<lparr>input = toLowerCase inp, position = 0, tokenHistory = []\<rparr>"

definition currentChar :: "lexer \<Rightarrow> char option" where
  "currentChar L = (if position L < length (input L) then Some (input L ! position L) else None)"

text \<open>The characters from the cursor on.\<close>

definition remaining :: "lexer \<Rightarrow> string" where
  "remaining L = drop (position L) (input L)"

text \<open>\<open>tokenHistory.slice(-count)\<close>; \<open>slice(-0)\<close> is the whole array.\<close>

definition getRecentTokens :: "token list \<Rightarrow> nat \<Rightarrow> token list" where
  "getRecentTokens hist count = (if count = 0 then hist else drop (length hist - count) hist)"

definition addToHistory :: "token list \<Rightarrow> token \<Rightarrow> token list" where
  "addToHistory hist t = (let h = hist @ [t] in if length h > 10 then tl h else h)"

definition detectContextualEm :: "token list \<Rightarrow> token_type" where
  "detectContextualEm hist =
     (let previousTokens = getRecentTokens hist 3
      in if list_ex (\<lambda>t. tok_type t = INSERT) previousTokens then INTO
         else if list_ex (\<lambda>t. tok_type t = JOIN) previousTokens then ON
         else INTO)"

text \<open>The keyword table: an entry is a fixed kind or the resolver of \<open>em\<close>.\<close>

datatype keyword = Kind token_type | ContextualEm

definition keywordTable :: "(string \<times> keyword) list" where
  "keywordTable =
     [(''selecionar'', Kind SELECT), (''de'', Kind FROM), (''onde'', Kind WHERE),
      (''juntar'', Kind JOIN), (''interno'', Kind INNER), (''esquerda'', Kind LEFT),
      (''direita'', Kind RIGHT), (''em'', ContextualEm), (''e'', Kind AND), (''ou'', Kind OR),
      (''ordenar'', Kind ORDER), (''por'', Kind BY), (''agrupar'', Kind GROUP),
      (''tendo'', Kind HAVING), (''inserir'', Kind INSERT), (''valores'', Kind VALUES),
      (''atualizar'', Kind UPDATE), (''definir'', Kind SET), (''remover'', Kind DELETE),
      (''criar'', Kind CREATE), (''tabela'', Kind TABLE), (''banco'', Kind DATABASE),
      (''usar'', Kind USE), (''como'', Kind LIKE),
      (''primaria'', Kind PRIMARY), (''chave'', Kind KEY), (''estrangeira'', Kind FOREIGN),
      (''referencia'', Kind REFERENCES), (''unico'', Kind UNIQUE), (''auto'', Kind AUTO),
      (''incremento'', Kind INCREMENT), (''nao'', Kind NOT), (''nulo'', Kind NULL),
      (''padrao'', Kind DEFAULT),
      (''primary'', Kind PRIMARY), (''key'', Kind KEY), (''foreign'', Kind FOREIGN),
      (''references'', Kind REFERENCES), (''unique'', Kind UNIQUE),
      (''increment'', Kind INCREMENT), (''not'', Kind NOT), (''null'', Kind NULL),
      (''default'', Kind DEFAULT)]"

text \<open>\<open>readNumber\<close>: digits, then a dot and more digits when a dot is next.\<close>

definition readNumber :: "lexer \<Rightarrow> jsval \<times> lexer" where
  "readNumber L =
     (let ip = takeWhile is_digit (remaining L);
          r = dropWhile is_digit (remaining L);
          result = (case r of
                      [] \<Rightarrow> ip
                    | c # r' \<Rightarrow> if c = CHR ''.'' then ip @ ''.'' @ takeWhile is_digit r' else ip)
      in (parseFloat result, L\<lparr>position := position L + length result\<rparr>))"

text \<open>
  The loop of \<open>readString\<close>, run on the characters after the opening quote: the text
  read, and the characters left when the loop stops (none: the input ended first).
\<close>

definition unescape :: "char \<Rightarrow> char" where
  "unescape c =
     (if c = CHR ''n'' then CHR 0x0A
      else if c = CHR ''t'' then CHR 0x09
      else if c = CHR ''r'' then CHR 0x0D
      else c)"

fun readString_loop :: "char \<Rightarrow> string \<Rightarrow> string \<times> string" where
  "readString_loop quote [] = ([], [])"
| "readString_loop quote [c] = (if c = quote then ([], [c]) else if c = CHR 0x5C then ([], []) else ([c], []))"
| "readString_loop quote (c # d # cs) =
     (if c = quote then ([], c # d # cs)
      else if c = CHR 0x5C
      then (case readString_loop quote cs of (r, rest) \<Rightarrow> (unescape d # r, rest))
      else (case readString_loop quote (d # cs) of (r, rest) \<Rightarrow> (c # r, rest)))"

definition readString :: "lexer \<Rightarrow> error + (string \<times> lexer)" where
  "readString L =
     (case remaining L of
        [] \<Rightarrow> Inl (LexUnterminatedString (position L))
      | quote # cs \<Rightarrow>
          (case readString_loop quote cs of
             (result, rest) \<Rightarrow>
               if rest = [] then Inl (LexUnterminatedString (length (input L)))
               else Inr (result, L\<lparr>position := length (input L) - length rest + 1\<rparr>)))"

definition readIdentifier :: "lexer \<Rightarrow> string \<times> lexer" where
  "readIdentifier L =
     (let result = takeWhile (\<lambda>c. is_word c \<or> c = CHR ''_'') (remaining L)
      in (result, L\<lparr>position := position L + length result\<rparr>))"

definition singleCharTokens :: "(char \<times> token_type) list" where
  "singleCharTokens =
     [(CHR ''='', EQUALS), (CHR ''<'', LESS_THAN), (CHR ''>'', GREATER_THAN), (CHR '','', COMMA),
      (CHR ''.'', DOT), (CHR '':'', COLON), (CHR '';'', SEMICOLON), (CHR ''('', OPEN_PAREN),
      (CHR '')'', CLOSE_PAREN), (CHR ''*'', ASTERISK)]"

text \<open>Emitting a token records it in the trailing window.\<close>

definition emit :: "token \<Rightarrow> lexer \<Rightarrow> error + (token \<times> lexer)" where
  "emit t L = Inr (t, L\<lparr>tokenHistory := addToHistory (tokenHistory L) t\<rparr>)"

text \<open>
  \<open>getNextToken\<close>. The position stored in a number, string or word token is the cursor
  after the token was read, since the constructor's arguments are evaluated left to
  right; an operator or punctuation token stores where it starts.
\<close>

definition getNextToken :: "lexer \<Rightarrow> error + (token \<times> lexer)" where
  "getNextToken L0 =
     (let L = L0\<lparr>position := position L0 + length (takeWhile is_space (remaining L0))\<rparr>
      in case remaining L of
           [] \<Rightarrow> Inr (Token EOF JNull (position L), L)
         | c # cs \<Rightarrow>
             if is_digit c then
               (case readNumber L of (v, L') \<Rightarrow> emit (Token NUMBER v (position L')) L')
             else if c = CHR 0x27 \<or> c = CHR 0x22 then
               (case readString L of
                  Inl e \<Rightarrow> Inl e
                | Inr (s, L') \<Rightarrow> emit (Token STRING (JStr s) (position L')) L')
             else if is_alpha c \<or> c = CHR ''_'' then
               (case readIdentifier L of
                  (identifier, L') \<Rightarrow>
                    let tokenType = (case map_of keywordTable identifier of
                                       None \<Rightarrow> IDENTIFIER
                                     | Some ContextualEm \<Rightarrow> detectContextualEm (tokenHistory L')
                                     | Some (Kind k) \<Rightarrow> k)
                    in emit (Token tokenType (JStr identifier) (position L')) L')
             else if c = CHR ''!'' \<and> (case cs of [] \<Rightarrow> False | d # _ \<Rightarrow> d = CHR ''='') then
               emit (Token NOT_EQUALS (JStr ''!='') (position L)) (L\<lparr>position := position L + 2\<rparr>)
             else if c = CHR ''<'' \<and> (case cs of [] \<Rightarrow> False | d # _ \<Rightarrow> d = CHR ''='') then
               emit (Token LESS_EQUAL (JStr ''<='') (position L)) (L\<lparr>position := position L + 2\<rparr>)
             else if c = CHR ''>'' \<and> (case cs of [] \<Rightarrow> False | d # _ \<Rightarrow> d = CHR ''='') then
               emit (Token GREATER_EQUAL (JStr ''>='') (position L)) (L\<lparr>position := position L + 2\<rparr>)
             else
               (case map_of singleCharTokens c of
                  Some tokenType \<Rightarrow>
                    emit (Token tokenType (JStr [c]) (position L)) (L\<lparr>position := position L + 1\<rparr>)
                | None \<Rightarrow> Inl (LexUnexpectedChar (position L) c)))"

text \<open>Every token but the end marker moves the cursor forward, so \<open>tokenize\<close> terminates.\<close>

lemma readString_loop_rest: "length (snd (readString_loop q cs)) \<le> length cs"
  by (induction q cs rule: readString_loop.induct) (auto split: prod.splits)

lemma remaining_Cons: "remaining L = c # cs \<Longrightarrow> position L < length (input L)"
  by (cases "position L < length (input L)") (auto simp: remaining_def)

lemma readNumber_pos:
  assumes "remaining L = c # cs" "is_digit c" "readNumber L = (v, L')"
  shows "input L' = input L \<and> position L < position L'"
  using assms by (auto simp: readNumber_def Let_def split: list.splits if_splits)

lemma readString_pos:
  assumes "readString L = Inr (s, L')"
  shows "input L' = input L \<and> position L < position L'"
proof -
  obtain q cs where rem: "remaining L = q # cs"
    using assms by (cases "remaining L") (auto simp: readString_def)
  have "length cs = length (input L) - position L - 1"
    using rem by (auto simp: remaining_def dest: arg_cong [where f = length])
  then show ?thesis
    using assms rem readString_loop_rest [of q cs] remaining_Cons [OF rem]
    by (auto simp: readString_def split: prod.splits if_splits)
qed

lemma readIdentifier_pos:
  assumes "remaining L = c # cs" "is_alpha c \<or> c = CHR ''_''" "readIdentifier L = (s, L')"
  shows "input L' = input L \<and> position L < position L'"
  using assms by (auto simp: readIdentifier_def Let_def is_word_def)

lemma emit_pos: "emit t L = Inr (t', L') \<Longrightarrow> input L' = input L \<and> position L' = position L"
  by (auto simp: emit_def)

lemma getNextToken_progress:
  assumes "getNextToken L = Inr (t, L')" and "tok_type t \<noteq> EOF"
  shows "length (input L') - position L' < length (input L) - position L"
proof -
  define M where "M = L\<lparr>position := position L + length (takeWhile is_space (remaining L))\<rparr>"
  have inp: "input M = input L" and pos: "position L \<le> position M"
    by (simp_all add: M_def)
  obtain c cs where rem: "remaining M = c # cs"
    using assms by (cases "remaining M") (auto simp: getNextToken_def Let_def M_def [symmetric])
  note lt = remaining_Cons [OF rem]
  have goal: "input L' = input M \<and> position M < position L'"
    using assms(1) rem
    unfolding getNextToken_def Let_def M_def [symmetric]
    by (auto split: if_splits prod.splits sum.splits option.splits
          dest!: emit_pos dest: readNumber_pos readString_pos readIdentifier_pos)
  then show ?thesis
    using lt inp pos by auto
qed
function tokenize_from :: "lexer \<Rightarrow> error + token list" where
  "tokenize_from L =
     (case getNextToken L of
        Inl e \<Rightarrow> Inl e
      | Inr (t, L') \<Rightarrow>
          if tok_type t = EOF then Inr [t]
          else (case tokenize_from L' of Inl e \<Rightarrow> Inl e | Inr ts \<Rightarrow> Inr (t # ts)))"
  by pat_completeness auto
termination
  by (relation "measure (\<lambda>L. length (input L) - position L)")
     (auto dest: getNextToken_progress)

declare tokenize_from.simps [simp del]

text \<open>\<open>new Lexer(text).tokenize()\<close>.\<close>

definition tokenize :: "string \<Rightarrow> error + token list" where
  "tokenize inp = tokenize_from (new_lexer inp)"

section \<open>Syntax tree\<close>

text \<open>
  The node classes of \<open>parser/ast/nodes.js\<close>. The wrappers with a single field
  (\<open>SelectList\<close>, \<open>WhereClause\<close>, \<open>OrderByClause\<close>, \<open>GroupByClause\<close>) are
  represented by that field; \<open>null\<close> is \<open>None\<close>. An operator, a name or an alias is
  the text of a word or operator token, hence a string.
\<close>

datatype expression =
    LiteralExpression jsval string
  | IdentifierExpression string "string option"
  | BinaryExpression expression string expression
  | AllColumnsExpression "string option"

datatype columnExpression =
  ColumnExpression (ce_expression: expression) (ce_alias: "string option")

datatype fromClause =
  FromClause (fc_tableName: string) (fc_alias: "string option")

datatype joinClause =
  JoinClause (jc_joinType: token_type) (jc_tableName: string) (jc_onCondition: expression)
    (jc_alias: "string option")

datatype orderByExpression =
  OrderByExpression (ob_expression: expression) (ob_direction: string)

datatype constraintDefinition =
  ConstraintDefinition (cd_type: string) (cd_value: "expression option")

datatype tableConstraint =
  TableConstraint (tc_type: string) (tc_columnName: string)
    (tc_references: "(string \<times> string) option")

datatype columnDefinition =
  ColumnDefinition (col_name: string) (col_type: string)
    (col_constraints: "constraintDefinition list") (col_defaultValue: "expression option")
    (col_autoIncrement: bool)

datatype assignment = Assignment (as_column: string) (as_value: expression)

datatype statement =
    SelectStatement "columnExpression list" fromClause "expression option" "joinClause list"
      "orderByExpression list option" "expression list option"
  | InsertStatement string "string list option" "expression list"
  | UpdateStatement string "assignment list" "expression option"
  | DeleteStatement string "expression option"
  | CreateTableStatement string "columnDefinition list" "tableConstraint list"
  | CreateDatabase string

text \<open>What \<open>parse\<close> returns: the statement when there is exactly one, else the array.\<close>

datatype ast = Single statement | Several "statement list"

section \<open>Parser\<close>

text \<open>
  The parser object is the token array and the index \<open>currentToken\<close>; the array never
  changes, so a parsing method takes the array and the index and returns its result with
  the new index, or the error it throws.
\<close>

definition bindE :: "error + 'a \<Rightarrow> ('a \<Rightarrow> error + 'b) \<Rightarrow> error + 'b" where
  "bindE m f = (case m of Inl e \<Rightarrow> Inl e | Inr x \<Rightarrow> f x)"

definition getCurrentToken :: "token list \<Rightarrow> nat \<Rightarrow> token" where
  "getCurrentToken ts i = (if i \<ge> length ts then last ts else ts ! i)"

definition match :: "token list \<Rightarrow> nat \<Rightarrow> token_type list \<Rightarrow> bool" where
  "match ts i types = (tok_type (getCurrentToken ts i) \<in> set types)"

definition consume :: "token list \<Rightarrow> nat \<Rightarrow> token_type option \<Rightarrow> error + (token \<times> nat)" where
  "consume ts i expectedType =
     (let t = getCurrentToken ts i
      in case expectedType of
           None \<Rightarrow> Inr (t, i + 1)
         | Some ty \<Rightarrow>
             if tok_type t \<noteq> ty then Inl (SyntaxExpected (tok_position t) ty (tok_type t))
             else Inr (t, i + 1))"

text \<open>The \<open>value\<close> of a word, operator or punctuation token, which is a string.\<close>

definition tok_text :: "token \<Rightarrow> string" where
  "tok_text t = js_to_string (tok_value t)"

text \<open>
  The loop \<open>do { item; if (match(COMMA)) consume(); else break; } while (true)\<close>, which
  the source writes out for every comma-separated list. The bound \<open>n\<close> counts the
  iterations still allowed.
\<close>

fun commaList ::
  "(nat \<Rightarrow> error + ('a \<times> nat)) \<Rightarrow> token list \<Rightarrow> nat \<Rightarrow> 'a list \<Rightarrow> nat \<Rightarrow> error + ('a list \<times> nat)"
where
  "commaList item ts n acc i =
     bindE (item i) (\<lambda>(x, i1).
       if match ts i1 [COMMA] then
         (case n of 0 \<Rightarrow> Inl OutOfFuel | Suc m \<Rightarrow> commaList item ts m (acc @ [x]) (i1 + 1))
       else Inr (acc @ [x], i1))"

declare commaList.simps [simp del]

subsection \<open>Expressions\<close>

definition parseIdentifierExpression :: "token list \<Rightarrow> nat \<Rightarrow> error + (expression \<times> nat)" where
  "parseIdentifierExpression ts i =
     bindE (consume ts i (Some IDENTIFIER)) (\<lambda>(t, i1).
       if match ts i1 [DOT] then
         bindE (consume ts i1 None) (\<lambda>(_, i2).
         bindE (consume ts i2 (Some IDENTIFIER)) (\<lambda>(c, i3).
           Inr (IdentifierExpression (tok_text c) (Some (tok_text t)), i3)))
       else Inr (IdentifierExpression (tok_text t) None, i1))"

text \<open>\<open>sub\<close> stands for the recursive call \<open>this.parseExpression()\<close>.\<close>

definition parsePrimaryExpression ::
  "(nat \<Rightarrow> error + (expression \<times> nat)) \<Rightarrow> token list \<Rightarrow> nat \<Rightarrow> error + (expression \<times> nat)"
where
  "parsePrimaryExpression sub ts i =
     (let t = getCurrentToken ts i
      in if tok_type t = NUMBER then Inr (LiteralExpression (tok_value t) ''NUMBER'', i + 1)
         else if tok_type t = STRING then Inr (LiteralExpression (tok_value t) ''STRING'', i + 1)
         else if tok_type t = IDENTIFIER then parseIdentifierExpression ts i
         else if tok_type t = OPEN_PAREN then
           bindE (sub (i + 1)) (\<lambda>(e, i1).
           bindE (consume ts i1 (Some CLOSE_PAREN)) (\<lambda>(_, i2). Inr (e, i2)))
         else Inl (SyntaxUnexpectedExpression (tok_position t) (tok_value t)))"

definition parseComparisonExpression ::
  "(nat \<Rightarrow> error + (expression \<times> nat)) \<Rightarrow> token list \<Rightarrow> nat \<Rightarrow> error + (expression \<times> nat)"
where
  "parseComparisonExpression sub ts i =
     bindE (parsePrimaryExpression sub ts i) (\<lambda>(left, i1).
       if match ts i1 [EQUALS, NOT_EQUALS, LESS_THAN, GREATER_THAN, LESS_EQUAL, GREATER_EQUAL, LIKE]
       then
         bindE (consume ts i1 None) (\<lambda>(t, i2).
         bindE (parsePrimaryExpression sub ts i2) (\<lambda>(right, i3).
           Inr (BinaryExpression left (tok_text t) right, i3)))
       else Inr (left, i1))"

text \<open>The loop \<open>while (match(AND)) ...\<close> of \<open>parseAndExpression\<close>.\<close>

fun parseAndLoop ::
  "(nat \<Rightarrow> error + (expression \<times> nat)) \<Rightarrow> token list \<Rightarrow> nat \<Rightarrow> expression \<Rightarrow> nat
     \<Rightarrow> error + (expression \<times> nat)"
where
  "parseAndLoop sub ts n left i =
     (if match ts i [AND] then
        (case n of
           0 \<Rightarrow> Inl OutOfFuel
         | Suc m \<Rightarrow>
             bindE (consume ts i None) (\<lambda>(t, i1).
             bindE (parseComparisonExpression sub ts i1) (\<lambda>(right, i2).
               parseAndLoop sub ts m (BinaryExpression left (tok_text t) right) i2)))
      else Inr (left, i))"

declare parseAndLoop.simps [simp del]

definition parseAndExpression ::
  "(nat \<Rightarrow> error + (expression \<times> nat)) \<Rightarrow> token list \<Rightarrow> nat \<Rightarrow> error + (expression \<times> nat)"
where
  "parseAndExpression sub ts i =
     bindE (parseComparisonExpression sub ts i) (\<lambda>(left, i1).
       parseAndLoop sub ts (length ts) left i1)"

text \<open>The loop \<open>while (match(OR)) ...\<close> of \<open>parseOrExpression\<close>.\<close>

fun parseOrLoop ::
  "(nat \<Rightarrow> error + (expression \<times> nat)) \<Rightarrow> token list \<Rightarrow> nat \<Rightarrow> expression \<Rightarrow> nat
     \<Rightarrow> error + (expression \<times> nat)"
where
  "parseOrLoop sub ts n left i =
     (if match ts i [OR] then
        (case n of
           0 \<Rightarrow> Inl OutOfFuel
         | Suc m \<Rightarrow>
             bindE (consume ts i None) (\<lambda>(t, i1).
             bindE (parseAndExpression sub ts i1) (\<lambda>(right, i2).
               parseOrLoop sub ts m (BinaryExpression left (tok_text t) right) i2)))
      else Inr (left, i))"

declare parseOrLoop.simps [simp del]

definition parseOrExpression ::
  "(nat \<Rightarrow> error + (expression \<times> nat)) \<Rightarrow> token list \<Rightarrow> nat \<Rightarrow> error + (expression \<times> nat)"
where
  "parseOrExpression sub ts i =
     bindE (parseAndExpression sub ts i) (\<lambda>(left, i1).
       parseOrLoop sub ts (length ts) left i1)"

text \<open>
  \<open>parseExpression\<close> with a bound on the nesting of parentheses. Every level of nesting
  consumes an opening parenthesis, and every iteration of the loops above consumes an
  operator, so the number of tokens bounds both.
\<close>

fun parseExpressionN :: "nat \<Rightarrow> token list \<Rightarrow> nat \<Rightarrow> error + (expression \<times> nat)" where
  "parseExpressionN 0 ts i = Inl OutOfFuel"
| "parseExpressionN (Suc n) ts i = parseOrExpression (parseExpressionN n ts) ts i"

definition parseExpression :: "token list \<Rightarrow> nat \<Rightarrow> error + (expression \<times> nat)" where
  "parseExpression ts i = parseExpressionN (Suc (length ts)) ts i"

subsection \<open>SELECT\<close>

text \<open>
  One entry of the select list. After \<open>*\<close> the source tests whether one and the same
  earlier token is both an identifier and a dot, which never holds.
\<close>

definition typeAt :: "token list \<Rightarrow> int \<Rightarrow> token_type option" where
  "typeAt ts k = (if 0 \<le> k \<and> nat k < length ts then Some (tok_type (ts ! nat k)) else None)"

definition parseSelectItem :: "token list \<Rightarrow> nat \<Rightarrow> error + (columnExpression \<times> nat)" where
  "parseSelectItem ts i =
     (if match ts i [ASTERISK] then
        bindE (consume ts i None) (\<lambda>(_, i1).
          if i1 > 0 \<and> typeAt ts (int i1 - 2) = Some IDENTIFIER \<and> typeAt ts (int i1 - 2) = Some DOT
          then Inr (ColumnExpression (AllColumnsExpression (Some (tok_text (ts ! (i1 - 3))))) None, i1)
          else Inr (ColumnExpression (AllColumnsExpression None) None, i1))
      else
        bindE (parseExpression ts i) (\<lambda>(e, i1).
          if match ts i1 [IDENTIFIER] \<and> \<not> match ts i1 [FROM, WHERE, ORDER, GROUP] then
            bindE (consume ts i1 (Some IDENTIFIER)) (\<lambda>(a, i2).
              Inr (ColumnExpression e (Some (tok_text a)), i2))
          else Inr (ColumnExpression e None, i1)))"

definition parseSelectList :: "token list \<Rightarrow> nat \<Rightarrow> error + (columnExpression list \<times> nat)" where
  "parseSelectList ts i = commaList (parseSelectItem ts) ts (length ts) [] i"

definition parseFromClause :: "token list \<Rightarrow> nat \<Rightarrow> error + (fromClause \<times> nat)" where
  "parseFromClause ts i =
     bindE (consume ts i (Some IDENTIFIER)) (\<lambda>(t, i1).
       if match ts i1 [IDENTIFIER] \<and> \<not> match ts i1 [WHERE, JOIN, ORDER, GROUP] then
         bindE (consume ts i1 (Some IDENTIFIER)) (\<lambda>(a, i2).
           Inr (FromClause (tok_text t) (Some (tok_text a)), i2))
       else Inr (FromClause (tok_text t) None, i1))"

definition parseJoinClause :: "token list \<Rightarrow> nat \<Rightarrow> error + (joinClause \<times> nat)" where
  "parseJoinClause ts i =
     bindE (if match ts i [INNER, LEFT, RIGHT]
            then bindE (consume ts i None) (\<lambda>(t, i1). Inr (tok_type t, i1))
            else Inr (INNER, i)) (\<lambda>(joinType, i1).
     bindE (consume ts i1 (Some JOIN)) (\<lambda>(_, i2).
     bindE (consume ts i2 (Some IDENTIFIER)) (\<lambda>(t, i3).
     bindE (if match ts i3 [IDENTIFIER] \<and> \<not> match ts i3 [ON]
            then bindE (consume ts i3 (Some IDENTIFIER)) (\<lambda>(a, i4). Inr (Some (tok_text a), i4))
            else Inr (None, i3)) (\<lambda>(alias, i4).
     bindE (consume ts i4 (Some ON)) (\<lambda>(_, i5).
     bindE (parseExpression ts i5) (\<lambda>(onCondition, i6).
       Inr (JoinClause joinType (tok_text t) onCondition alias, i6)))))))"

text \<open>The loop \<open>while (match(JOIN, INNER, LEFT, RIGHT)) joinClauses.push(...)\<close>.\<close>

fun parseJoinLoop ::
  "token list \<Rightarrow> nat \<Rightarrow> joinClause list \<Rightarrow> nat \<Rightarrow> error + (joinClause list \<times> nat)"
where
  "parseJoinLoop ts n acc i =
     (if match ts i [JOIN, INNER, LEFT, RIGHT] then
        (case n of
           0 \<Rightarrow> Inl OutOfFuel
         | Suc m \<Rightarrow> bindE (parseJoinClause ts i) (\<lambda>(j, i1). parseJoinLoop ts m (acc @ [j]) i1))
      else Inr (acc, i))"

declare parseJoinLoop.simps [simp del]

definition parseWhereClause :: "token list \<Rightarrow> nat \<Rightarrow> error + (expression \<times> nat)" where
  "parseWhereClause ts i =
     bindE (consume ts i (Some WHERE)) (\<lambda>(_, i1). parseExpression ts i1)"

text \<open>
  One ordering term: the expression, then a direction word when the next token is an
  identifier spelled \<open>asc\<close>, \<open>crescente\<close>, \<open>desc\<close> or \<open>decrescente\<close>. Any other
  identifier is left where it is.
\<close>

definition parseOrderByItem :: "token list \<Rightarrow> nat \<Rightarrow> error + (orderByExpression \<times> nat)" where
  "parseOrderByItem ts i =
     bindE (parseExpression ts i) (\<lambda>(e, i1).
       if match ts i1 [IDENTIFIER] then
         (let t = getCurrentToken ts i1
          in if tok_value t = JStr ''asc'' \<or> tok_value t = JStr ''crescente''
             then Inr (OrderByExpression e ''ASC'', i1 + 1)
             else if tok_value t = JStr ''desc'' \<or> tok_value t = JStr ''decrescente''
             then Inr (OrderByExpression e ''DESC'', i1 + 1)
             else Inr (OrderByExpression e ''ASC'', i1))
       else Inr (OrderByExpression e ''ASC'', i1))"

definition parseOrderByClause ::
  "token list \<Rightarrow> nat \<Rightarrow> error + (orderByExpression list \<times> nat)"
where
  "parseOrderByClause ts i =
     bindE (consume ts i (Some ORDER)) (\<lambda>(_, i1).
     bindE (consume ts i1 (Some BY)) (\<lambda>(_, i2).
       commaList (parseOrderByItem ts) ts (length ts) [] i2))"

definition parseGroupByClause :: "token list \<Rightarrow> nat \<Rightarrow> error + (expression list \<times> nat)" where
  "parseGroupByClause ts i =
     bindE (consume ts i (Some GROUP)) (\<lambda>(_, i1).
     bindE (consume ts i1 (Some BY)) (\<lambda>(_, i2).
       commaList (parseExpression ts) ts (length ts) [] i2))"

text \<open>An optional clause, present when the current token has the given kind.\<close>

definition optionalClause ::
  "token list \<Rightarrow> token_type \<Rightarrow> (nat \<Rightarrow> error + ('a \<times> nat)) \<Rightarrow> nat \<Rightarrow> error + ('a option \<times> nat)"
where
  "optionalClause ts ty p i =
     (if match ts i [ty] then bindE (p i) (\<lambda>(x, i1). Inr (Some x, i1)) else Inr (None, i))"

definition parseSelectStatement :: "token list \<Rightarrow> nat \<Rightarrow> error + (statement \<times> nat)" where
  "parseSelectStatement ts i =
     bindE (consume ts i (Some SELECT)) (\<lambda>(_, i1).
     bindE (parseSelectList ts i1) (\<lambda>(selectList, i2).
     bindE (consume ts i2 (Some FROM)) (\<lambda>(_, i3).
     bindE (parseFromClause ts i3) (\<lambda>(fromClause, i4).
     bindE (parseJoinLoop ts (length ts) [] i4) (\<lambda>(joinClauses, i5).
     bindE (optionalClause ts WHERE (parseWhereClause ts) i5) (\<lambda>(whereClause, i6).
     bindE (optionalClause ts GROUP (parseGroupByClause ts) i6) (\<lambda>(groupByClause, i7).
     bindE (optionalClause ts ORDER (parseOrderByClause ts) i7) (\<lambda>(orderByClause, i8).
       Inr (SelectStatement selectList fromClause whereClause joinClauses orderByClause
              groupByClause, i8)))))))))"

subsection \<open>CREATE\<close>

definition parseCreateDatabaseStatement :: "token list \<Rightarrow> nat \<Rightarrow> error + (statement \<times> nat)" where
  "parseCreateDatabaseStatement ts i =
     bindE (consume ts i (Some DATABASE)) (\<lambda>(_, i1).
     bindE (consume ts i1 (Some IDENTIFIER)) (\<lambda>(t, i2).
       Inr (CreateDatabase (tok_text t), i2)))"

definition parseColumnType :: "token list \<Rightarrow> nat \<Rightarrow> error + (string \<times> nat)" where
  "parseColumnType ts i =
     bindE (consume ts i (Some IDENTIFIER)) (\<lambda>(t, i1).
       if tok_value t = JStr ''uuid'' then Inr (''uuid'', i1)
       else if match ts i1 [OPEN_PAREN] then
         bindE (consume ts i1 None) (\<lambda>(_, i2).
         bindE (consume ts i2 (Some NUMBER)) (\<lambda>(size, i3).
         bindE (consume ts i3 (Some CLOSE_PAREN)) (\<lambda>(_, i4).
           Inr (tok_text t @ ''('' @ js_to_string (tok_value size) @ '')'', i4))))
       else Inr (tok_text t, i1))"

text \<open>
  The loop over the constraints of a column; the state is the list of constraints, the
  last default expression and the auto-increment flag.
\<close>

fun parseColumnConstraints ::
  "token list \<Rightarrow> nat \<Rightarrow> constraintDefinition list \<times> expression option \<times> bool \<Rightarrow> nat
     \<Rightarrow> error + ((constraintDefinition list \<times> expression option \<times> bool) \<times> nat)"
where
  "parseColumnConstraints ts n (constraints, defaultValue, autoIncrement) i =
     (if match ts i [PRIMARY, UNIQUE, NOT, AUTO, DEFAULT] then
        (case n of
           0 \<Rightarrow> Inl OutOfFuel
         | Suc m \<Rightarrow>
             if match ts i [PRIMARY] then
               bindE (consume ts i None) (\<lambda>(_, i1).
               bindE (consume ts i1 (Some KEY)) (\<lambda>(_, i2).
                 parseColumnConstraints ts m
                   (constraints @ [ConstraintDefinition ''PRIMARY_KEY'' None], defaultValue,
                    autoIncrement) i2))
             else if match ts i [UNIQUE] then
               bindE (consume ts i None) (\<lambda>(_, i1).
                 parseColumnConstraints ts m
                   (constraints @ [ConstraintDefinition ''UNIQUE'' None], defaultValue,
                    autoIncrement) i1)
             else if match ts i [NOT] then
               bindE (consume ts i None) (\<lambda>(_, i1).
               bindE (consume ts i1 (Some NULL)) (\<lambda>(_, i2).
                 parseColumnConstraints ts m
                   (constraints @ [ConstraintDefinition ''NOT_NULL'' None], defaultValue,
                    autoIncrement) i2))
             else if match ts i [AUTO] then
               bindE (consume ts i None) (\<lambda>(_, i1).
               bindE (consume ts i1 (Some INCREMENT)) (\<lambda>(_, i2).
                 parseColumnConstraints ts m
                   (constraints @ [ConstraintDefinition ''AUTO_INCREMENT'' None], defaultValue,
                    True) i2))
             else
               bindE (consume ts i None) (\<lambda>(_, i1).
               bindE (parseExpression ts i1) (\<lambda>(d, i2).
                 parseColumnConstraints ts m
                   (constraints @ [ConstraintDefinition ''DEFAULT'' (Some d)], Some d,
                    autoIncrement) i2)))
      else Inr ((constraints, defaultValue, autoIncrement), i))"

declare parseColumnConstraints.simps [simp del]

definition parseColumnDefinition :: "token list \<Rightarrow> nat \<Rightarrow> error + (columnDefinition \<times> nat)" where
  "parseColumnDefinition ts i =
     bindE (consume ts i (Some IDENTIFIER)) (\<lambda>(t, i1).
     bindE (consume ts i1 (Some COLON)) (\<lambda>(_, i2).
     bindE (parseColumnType ts i2) (\<lambda>(columnType, i3).
     bindE (parseColumnConstraints ts (length ts) ([], None, False) i3)
       (\<lambda>((constraints, defaultValue, autoIncrement), i4).
         Inr (ColumnDefinition (tok_text t) columnType constraints defaultValue autoIncrement,
              i4)))))"

definition parseTableConstraint :: "token list \<Rightarrow> nat \<Rightarrow> error + (tableConstraint \<times> nat)" where
  "parseTableConstraint ts i =
     (if match ts i [PRIMARY] then
        bindE (consume ts i None) (\<lambda>(_, i1).
        bindE (consume ts i1 (Some KEY)) (\<lambda>(_, i2).
        bindE (consume ts i2 (Some OPEN_PAREN)) (\<lambda>(_, i3).
        bindE (consume ts i3 (Some IDENTIFIER)) (\<lambda>(c, i4).
        bindE (consume ts i4 (Some CLOSE_PAREN)) (\<lambda>(_, i5).
          Inr (TableConstraint ''PRIMARY_KEY'' (tok_text c) None, i5))))))
      else if match ts i [FOREIGN] then
        bindE (consume ts i None) (\<lambda>(_, i1).
        bindE (consume ts i1 (Some KEY)) (\<lambda>(_, i2).
        bindE (consume ts i2 (Some OPEN_PAREN)) (\<lambda>(_, i3).
        bindE (consume ts i3 (Some IDENTIFIER)) (\<lambda>(c, i4).
        bindE (consume ts i4 (Some CLOSE_PAREN)) (\<lambda>(_, i5).
        bindE (consume ts i5 (Some REFERENCES)) (\<lambda>(_, i6).
        bindE (consume ts i6 (Some IDENTIFIER)) (\<lambda>(rt, i7).
        bindE (consume ts i7 (Some OPEN_PAREN)) (\<lambda>(_, i8).
        bindE (consume ts i8 (Some IDENTIFIER)) (\<lambda>(rc, i9).
        bindE (consume ts i9 (Some CLOSE_PAREN)) (\<lambda>(_, i10).
          Inr (TableConstraint ''FOREIGN_KEY'' (tok_text c) (Some (tok_text rt, tok_text rc)),
               i10)))))))))))
      else if match ts i [UNIQUE] then
        bindE (consume ts i None) (\<lambda>(_, i1).
        bindE (consume ts i1 (Some OPEN_PAREN)) (\<lambda>(_, i2).
        bindE (consume ts i2 (Some IDENTIFIER)) (\<lambda>(c, i3).
        bindE (consume ts i3 (Some CLOSE_PAREN)) (\<lambda>(_, i4).
          Inr (TableConstraint ''UNIQUE'' (tok_text c) None, i4)))))
      else Inl (SyntaxTableConstraint (tok_position (getCurrentToken ts i))))"

text \<open>One entry of the parenthesised list of CREATE TABLE.\<close>

definition parseTableEntry ::
  "token list \<Rightarrow> nat \<Rightarrow> error + ((tableConstraint + columnDefinition) \<times> nat)"
where
  "parseTableEntry ts i =
     (if match ts i [PRIMARY, FOREIGN, UNIQUE]
      then bindE (parseTableConstraint ts i) (\<lambda>(c, i1). Inr (Inl c, i1))
      else bindE (parseColumnDefinition ts i) (\<lambda>(c, i1). Inr (Inr c, i1)))"

fun leftOnes :: "('a + 'b) list \<Rightarrow> 'a list" where
  "leftOnes [] = []"
| "leftOnes (Inl a # xs) = a # leftOnes xs"
| "leftOnes (Inr b # xs) = leftOnes xs"

fun rightOnes :: "('a + 'b) list \<Rightarrow> 'b list" where
  "rightOnes [] = []"
| "rightOnes (Inl a # xs) = rightOnes xs"
| "rightOnes (Inr b # xs) = b # rightOnes xs"

definition parseCreateTableStatement :: "token list \<Rightarrow> nat \<Rightarrow> error + (statement \<times> nat)" where
  "parseCreateTableStatement ts i =
     bindE (consume ts i (Some TABLE)) (\<lambda>(_, i1).
     bindE (consume ts i1 (Some IDENTIFIER)) (\<lambda>(t, i2).
     bindE (consume ts i2 (Some OPEN_PAREN)) (\<lambda>(_, i3).
     bindE (commaList (parseTableEntry ts) ts (length ts) [] i3) (\<lambda>(entries, i4).
     bindE (consume ts i4 (Some CLOSE_PAREN)) (\<lambda>(_, i5).
       Inr (CreateTableStatement (tok_text t) (rightOnes entries) (leftOnes entries), i5))))))"

definition parseCreateStatement :: "token list \<Rightarrow> nat \<Rightarrow> error + (statement \<times> nat)" where
  "parseCreateStatement ts i =
     bindE (consume ts i (Some CREATE)) (\<lambda>(_, i1).
       if match ts i1 [DATABASE] then parseCreateDatabaseStatement ts i1
       else if match ts i1 [TABLE] then parseCreateTableStatement ts i1
       else Inl (SyntaxCreateTarget (tok_position (getCurrentToken ts i1))))"

subsection \<open>INSERT, UPDATE, DELETE\<close>

definition parseInsertStatement :: "token list \<Rightarrow> nat \<Rightarrow> error + (statement \<times> nat)" where
  "parseInsertStatement ts i =
     bindE (consume ts i (Some INSERT)) (\<lambda>(_, i1).
     bindE (consume ts i1 (Some INTO)) (\<lambda>(_, i2).
     bindE (consume ts i2 (Some IDENTIFIER)) (\<lambda>(t, i3).
     bindE (if match ts i3 [OPEN_PAREN] then
              bindE (consume ts i3 None) (\<lambda>(_, i4).
              bindE (commaList (\<lambda>j. bindE (consume ts j (Some IDENTIFIER)) (\<lambda>(c, j1). Inr (tok_text c, j1)))
                       ts (length ts) [] i4) (\<lambda>(columns, i5).
              bindE (consume ts i5 (Some CLOSE_PAREN)) (\<lambda>(_, i6). Inr (Some columns, i6))))
            else Inr (None, i3)) (\<lambda>(columns, i4).
     bindE (consume ts i4 (Some VALUES)) (\<lambda>(_, i5).
     bindE (consume ts i5 (Some OPEN_PAREN)) (\<lambda>(_, i6).
     bindE (commaList (parseExpression ts) ts (length ts) [] i6) (\<lambda>(values, i7).
     bindE (consume ts i7 (Some CLOSE_PAREN)) (\<lambda>(_, i8).
       Inr (InsertStatement (tok_text t) columns values, i8)))))))))"

definition parseAssignment :: "token list \<Rightarrow> nat \<Rightarrow> error + (assignment \<times> nat)" where
  "parseAssignment ts i =
     bindE (consume ts i (Some IDENTIFIER)) (\<lambda>(c, i1).
     bindE (consume ts i1 (Some EQUALS)) (\<lambda>(_, i2).
     bindE (parseExpression ts i2) (\<lambda>(v, i3).
       Inr (Assignment (tok_text c) v, i3))))"

definition parseUpdateStatement :: "token list \<Rightarrow> nat \<Rightarrow> error + (statement \<times> nat)" where
  "parseUpdateStatement ts i =
     bindE (consume ts i (Some UPDATE)) (\<lambda>(_, i1).
     bindE (consume ts i1 (Some IDENTIFIER)) (\<lambda>(t, i2).
     bindE (consume ts i2 (Some SET)) (\<lambda>(_, i3).
     bindE (commaList (parseAssignment ts) ts (length ts) [] i3) (\<lambda>(assignments, i4).
     bindE (optionalClause ts WHERE (parseWhereClause ts) i4) (\<lambda>(whereClause, i5).
       Inr (UpdateStatement (tok_text t) assignments whereClause, i5))))))"

definition parseDeleteStatement :: "token list \<Rightarrow> nat \<Rightarrow> error + (statement \<times> nat)" where
  "parseDeleteStatement ts i =
     bindE (consume ts i (Some DELETE)) (\<lambda>(_, i1).
     bindE (consume ts i1 (Some FROM)) (\<lambda>(_, i2).
     bindE (consume ts i2 (Some IDENTIFIER)) (\<lambda>(t, i3).
     bindE (optionalClause ts WHERE (parseWhereClause ts) i3) (\<lambda>(whereClause, i4).
       Inr (DeleteStatement (tok_text t) whereClause, i4)))))"

subsection \<open>Statements\<close>

definition parseStatement :: "token list \<Rightarrow> nat \<Rightarrow> error + (statement \<times> nat)" where
  "parseStatement ts i =
     (let t = getCurrentToken ts i
      in if tok_type t = SELECT then parseSelectStatement ts i
         else if tok_type t = CREATE then parseCreateStatement ts i
         else if tok_type t = INSERT then parseInsertStatement ts i
         else if tok_type t = UPDATE then parseUpdateStatement ts i
         else if tok_type t = DELETE then parseDeleteStatement ts i
         else Inl (SyntaxUnknownCommand (tok_position t) (tok_value t)))"

text \<open>
  The loop of \<open>parse\<close>: statements until the end marker, each followed by an optional
  semicolon.
\<close>

fun parseLoop :: "token list \<Rightarrow> nat \<Rightarrow> statement list \<Rightarrow> nat \<Rightarrow> error + statement list" where
  "parseLoop ts n statements i =
     (if match ts i [EOF] then Inr statements
      else
        (case n of
           0 \<Rightarrow> Inl OutOfFuel
         | Suc m \<Rightarrow>
             bindE (parseStatement ts i) (\<lambda>(st, i1).
               parseLoop ts m (statements @ [st])
                 (if match ts i1 [SEMICOLON] then i1 + 1 else i1))))"

declare parseLoop.simps [simp del]

text \<open>
  \<open>new Parser(tokens).parse()\<close>. The token array of the lexer is never empty; on an
  empty array the first look at the current token reads a field of \<open>undefined\<close>.
\<close>

definition parse :: "token list \<Rightarrow> error + ast" where
  "parse ts =
     (if ts = [] then Inl TypeError
      else bindE (parseLoop ts (length ts) [] 0) (\<lambda>statements.
             case statements of [st] \<Rightarrow> Inr (Single st) | _ \<Rightarrow> Inr (Several statements)))"

section \<open>Storage manager\<close>

text \<open>
  A table as the storage manager keeps it: \<open>colunas\<close> maps a column name to its
  \<open>@tipo\<close> and its \<open>@constraints\<close> text, \<open>registros\<close> maps a record key to the
  record, \<open>constraints\<close> lists the table-level constraints. The last two may be missing,
  which the sources test for. A database is its \<open>tabelas\<close> object, and the store maps
  the name of a database to it, as the directory of database files does. What is written
  is what is read back: the encoding of a database as a file is not represented.
\<close>

datatype columnData = ColumnData (tipo: string) (constraintText: string)

record tableData =
  colunas :: "columnData obj"
  registros :: "jsval obj obj option"
  constraints :: "tableConstraint list option"

type_synonym store = "tableData obj obj"

datatype message =
    DatabaseCreated string
  | DatabaseExists string
  | TableCreated string
  | TableExists string
  | RecordInserted string
  | RecordsFound nat
  | RecordsUpdated nat string
  | RecordsDeleted nat string
  | ExecutionError error

text \<open>The result object \<open>{ sucesso, mensagem, resultados }\<close>.\<close>

datatype reply =
  Reply (sucesso: bool) (mensagem: message) (resultados: "jsval obj list option")

definition createDatabase :: "store \<Rightarrow> string \<Rightarrow> reply \<times> store" where
  "createDatabase st databaseName =
     (case map_of st databaseName of
        Some _ \<Rightarrow> (Reply False (DatabaseExists databaseName) None, st)
      | None \<Rightarrow> (Reply True (DatabaseCreated databaseName) None, obj_set st databaseName []))"

definition databaseExists :: "store \<Rightarrow> string \<Rightarrow> bool" where
  "databaseExists st databaseName = (map_of st databaseName \<noteq> None)"

definition loadTable :: "store \<Rightarrow> string \<Rightarrow> string \<Rightarrow> tableData option" where
  "loadTable st databaseName tableName =
     (case map_of st databaseName of
        None \<Rightarrow> None
      | Some tabelas \<Rightarrow> map_of tabelas tableName)"

definition saveTable :: "store \<Rightarrow> string \<Rightarrow> string \<Rightarrow> tableData \<Rightarrow> error + store" where
  "saveTable st databaseName tableName td =
     (case map_of st databaseName of
        None \<Rightarrow> Inl (DatabaseNotFound databaseName)
      | Some tabelas \<Rightarrow> Inr (obj_set st databaseName (obj_set tabelas tableName td)))"

text \<open>
  The text stored for a DEFAULT constraint: \<open>value.value || value\<close> of the default
  expression inside a template literal. A literal with a truthy value gives that value;
  anything else is the node object itself, printed as \<open>[object Object]\<close>.
\<close>

definition defaultText :: "expression option \<Rightarrow> string" where
  "defaultText d =
     (case d of
        Some (LiteralExpression v _) \<Rightarrow> if js_truthy v then js_to_string v else ''[object Object]''
      | Some e \<Rightarrow> ''[object Object]''
      | None \<Rightarrow> ''undefined'')"

definition constraintStrings :: "constraintDefinition \<Rightarrow> string list" where
  "constraintStrings c =
     (if cd_type c = ''PRIMARY_KEY'' then [''PRIMARY_KEY'']
      else if cd_type c = ''UNIQUE'' then [''UNIQUE'']
      else if cd_type c = ''NOT_NULL'' then [''NOT_NULL'']
      else if cd_type c = ''AUTO_INCREMENT'' then [''AUTO_INCREMENT'']
      else if cd_type c = ''DEFAULT'' then [''DEFAULT:'' @ defaultText (cd_value c)]
      else [])"

text \<open>\<open>parts.join(sep)\<close> on strings.\<close>

fun join :: "string \<Rightarrow> string list \<Rightarrow> string" where
  "join sep [] = []"
| "join sep [x] = x"
| "join sep (x # y # ys) = x @ sep @ join sep (y # ys)"

definition createTable ::
  "store \<Rightarrow> string \<Rightarrow> string \<Rightarrow> columnDefinition list \<Rightarrow> tableConstraint list
     \<Rightarrow> error + (reply \<times> store)"
where
  "createTable st databaseName tableName columnDefinitions tableConstraints =
     (case map_of st databaseName of
        None \<Rightarrow> Inl (DatabaseNotFound databaseName)
      | Some tabelas \<Rightarrow>
          (case map_of tabelas tableName of
             Some _ \<Rightarrow> Inr (Reply False (TableExists tableName) None, st)
           | None \<Rightarrow>
               let columns =
                     foldl (\<lambda>cols colDef.
                              obj_set cols (col_name colDef)
                                (ColumnData (col_type colDef)
                                   (join '','' (concat (map constraintStrings (col_constraints colDef))))))
                       [] columnDefinitions;
                   tableStructure =
                     \<lparr>colunas = columns, registros = Some [],
                      constraints = (if tableConstraints = [] then None else Some tableConstraints)\<rparr>
               in Inr (Reply True (TableCreated tableName) None,
                       obj_set st databaseName (obj_set tabelas tableName tableStructure))))"

section \<open>Constraint validator\<close>

text \<open>\<open>s.split(sep)\<close> for a separator of one character.\<close>

fun split :: "char \<Rightarrow> string \<Rightarrow> string list" where
  "split sep [] = [[]]"
| "split sep (c # cs) =
     (if c = sep then [] # split sep cs
      else (case split sep cs of [] \<Rightarrow> [[c]] | p # ps \<Rightarrow> (c # p) # ps))"

definition parseConstraints :: "string \<Rightarrow> string list" where
  "parseConstraints constraintString =
     (if constraintString = [] then [] else filter (\<lambda>c. trim c \<noteq> []) (split CHR '','' constraintString))"

text \<open>
  \<open>generateUUID\<close> draws one random hexadecimal digit for each \<open>x\<close> and \<open>y\<close> of the
  template. The draws come from \<open>rnd\<close>, where \<open>rnd k\<close> is the value of
  \<open>Math.random() * 16 | 0\<close> at the \<open>k\<close>-th call; the counter of calls is threaded
  through.
\<close>

definition hexDigit :: "nat \<Rightarrow> char" where
  "hexDigit v = (if v < 10 then char_of (48 + v) else char_of (87 + v))"

fun uuidChars :: "(nat \<Rightarrow> nat) \<Rightarrow> nat \<Rightarrow> string \<Rightarrow> string \<times> nat" where
  "uuidChars rnd k [] = ([], k)"
| "uuidChars rnd k (c # cs) =
     (if c = CHR ''x'' \<or> c = CHR ''y'' then
        (let r = rnd k mod 16;
             v = (if c = CHR ''x'' then r else r mod 4 + 8)
         in case uuidChars rnd (k + 1) cs of (out, k') \<Rightarrow> (hexDigit v # out, k'))
      else (case uuidChars rnd k cs of (out, k') \<Rightarrow> (c # out, k')))"

definition generateUUID :: "(nat \<Rightarrow> nat) \<Rightarrow> nat \<Rightarrow> string \<times> nat" where
  "generateUUID rnd k = uuidChars rnd k ''xxxxxxxx-xxxx-4xxx-yxxx-xxxxxxxxxxxx''"

text \<open>
  \<open>array.sort(compare)\<close> as a stable insertion sort; \<open>after a b\<close> says that the
  comparison of \<open>a\<close> with \<open>b\<close> is positive. Every sorting algorithm gives this result
  when the comparison is a consistent order; otherwise the order of the result depends on
  the engine.
\<close>

fun sortInsert :: "('a \<Rightarrow> 'a \<Rightarrow> bool) \<Rightarrow> 'a \<Rightarrow> 'a list \<Rightarrow> 'a list" where
  "sortInsert after x [] = [x]"
| "sortInsert after x (y # ys) = (if after x y then y # sortInsert after x ys else x # y # ys)"

definition sortBy :: "('a \<Rightarrow> 'a \<Rightarrow> bool) \<Rightarrow> 'a list \<Rightarrow> 'a list" where
  "sortBy after xs = foldr (sortInsert after) xs []"

text \<open>The comparison \<open>(a, b) => b - a\<close> is positive when \<open>a < b\<close>.\<close>

definition getNextAutoIncrementValue :: "tableData \<Rightarrow> string \<Rightarrow> jsval" where
  "getNextAutoIncrementValue td columnName =
     (case registros td of
        None \<Rightarrow> JNum 1
      | Some regs \<Rightarrow>
          let values = sortBy (\<lambda>a b. num_less (JNum 0) (js_sub b a))
                         (filter (\<lambda>v. js_typeof v = ''number'')
                            (map (\<lambda>r. obj_get r columnName) (map snd regs)))
          in (case values of [] \<Rightarrow> JNum 1 | v # _ \<Rightarrow> js_add v (JNum 1)))"

definition parseDefaultValue :: "(nat \<Rightarrow> nat) \<Rightarrow> nat \<Rightarrow> string \<Rightarrow> string \<Rightarrow> jsval \<times> nat" where
  "parseDefaultValue rnd k defaultValue type =
     (if type = ''numero'' then (parseFloat defaultValue, k)
      else if type = ''booleano'' then (JBool (toLowerCase defaultValue = ''true''), k)
      else if type = ''uuid'' then
        (if defaultValue = ''UUID()''
         then (case generateUUID rnd k of (u, k') \<Rightarrow> (JStr u, k'))
         else (JStr defaultValue, k))
      else (JStr defaultValue, k))"

text \<open>
  The three steps that \<open>applyAutoValues\<close> performs for one column, in the order of the
  source: auto-increment, generated identifier, default value.
\<close>

definition autoIncrementStep :: "tableData \<Rightarrow> string \<Rightarrow> string list \<Rightarrow> jsval obj \<Rightarrow> jsval obj" where
  "autoIncrementStep td columnName cs record =
     (if ''AUTO_INCREMENT'' \<in> set cs then
        (if \<not> js_truthy (obj_get record columnName)
         then obj_set record columnName (getNextAutoIncrementValue td columnName)
         else record)
      else record)"

definition uuidStep ::
  "(nat \<Rightarrow> nat) \<Rightarrow> string \<Rightarrow> string \<Rightarrow> jsval obj \<times> nat \<Rightarrow> jsval obj \<times> nat"
where
  "uuidStep rnd columnName type s =
     (case s of
        (record, k) \<Rightarrow>
          if type = ''uuid'' \<and> \<not> js_truthy (obj_get record columnName)
          then (case generateUUID rnd k of (u, k') \<Rightarrow> (obj_set record columnName (JStr u), k'))
          else (record, k))"

definition defaultStep ::
  "(nat \<Rightarrow> nat) \<Rightarrow> string \<Rightarrow> string \<Rightarrow> string list \<Rightarrow> jsval obj \<times> nat \<Rightarrow> jsval obj \<times> nat"
where
  "defaultStep rnd columnName type cs s =
     (case s of
        (record, k) \<Rightarrow>
          (case find (\<lambda>c. starts_with c ''DEFAULT:'') cs of
             None \<Rightarrow> (record, k)
           | Some defaultConstraint \<Rightarrow>
               if js_nullish (obj_get record columnName) then
                 (case parseDefaultValue rnd k (split CHR '':'' defaultConstraint ! 1) type of
                    (v, k') \<Rightarrow> (obj_set record columnName v, k'))
               else (record, k)))"

definition applyAutoColumn ::
  "(nat \<Rightarrow> nat) \<Rightarrow> tableData \<Rightarrow> jsval obj \<times> nat \<Rightarrow> string \<times> columnData \<Rightarrow> jsval obj \<times> nat"
where
  "applyAutoColumn rnd td s col =
     (case col of
        (columnName, columnDef) \<Rightarrow>
          let cs = parseConstraints (constraintText columnDef);
              type = tipo columnDef
          in defaultStep rnd columnName type cs
               (uuidStep rnd columnName type
                  (autoIncrementStep td columnName cs (fst s), snd s)))"

definition applyAutoValues ::
  "(nat \<Rightarrow> nat) \<Rightarrow> nat \<Rightarrow> jsval obj \<Rightarrow> tableData \<Rightarrow> jsval obj \<times> nat"
where
  "applyAutoValues rnd k record td = foldl (applyAutoColumn rnd td) (record, k) (colunas td)"

definition checkDuplicateValue :: "store \<Rightarrow> string \<Rightarrow> string \<Rightarrow> string \<Rightarrow> jsval \<Rightarrow> bool" where
  "checkDuplicateValue st databaseName tableName columnName v =
     (case loadTable st databaseName tableName of
        None \<Rightarrow> False
      | Some td \<Rightarrow>
          (case registros td of
             None \<Rightarrow> False
           | Some regs \<Rightarrow> list_ex (\<lambda>r. js_strict_eq (obj_get r columnName) v) (map snd regs)))"

definition validateForeignKey :: "store \<Rightarrow> string \<Rightarrow> string \<Rightarrow> string \<Rightarrow> jsval \<Rightarrow> bool" where
  "validateForeignKey st databaseName referencedTable referencedColumn v =
     (if js_nullish v then True
      else (case loadTable st databaseName referencedTable of
              None \<Rightarrow> False
            | Some td \<Rightarrow>
                (case registros td of
                   None \<Rightarrow> False
                 | Some regs \<Rightarrow>
                     list_ex (\<lambda>r. js_strict_eq (obj_get r referencedColumn) v) (map snd regs))))"

text \<open>The checks of \<open>validateInsert\<close> for one column, on the completed record.\<close>

definition columnViolations ::
  "store \<Rightarrow> string \<Rightarrow> string \<Rightarrow> jsval obj \<Rightarrow> string \<times> columnData \<Rightarrow> violation list"
where
  "columnViolations st databaseName tableName record col =
     (case col of
        (columnName, columnDef) \<Rightarrow>
          let v = obj_get record columnName;
              cs = parseConstraints (constraintText columnDef)
          in (if ''NOT_NULL'' \<in> set cs \<and> js_nullish v then [NotNullViolation columnName] else [])
           @ (if ''PRIMARY_KEY'' \<in> set cs then
                (if js_nullish v then [PrimaryKeyNull columnName]
                 else if checkDuplicateValue st databaseName tableName columnName v
                 then [PrimaryKeyDuplicate columnName v] else [])
              else [])
           @ (if ''UNIQUE'' \<in> set cs \<and> \<not> js_nullish v
                 \<and> checkDuplicateValue st databaseName tableName columnName v
              then [UniqueDuplicate columnName v] else []))"

text \<open>A constraint without reference options has \<open>undefined\<close> for both names.\<close>

definition foreignKeyViolations ::
  "store \<Rightarrow> string \<Rightarrow> jsval obj \<Rightarrow> tableConstraint \<Rightarrow> violation list"
where
  "foreignKeyViolations st databaseName record c =
     (if tc_type c = ''FOREIGN_KEY'' then
        (let v = obj_get record (tc_columnName c);
             ref = (case tc_references c of None \<Rightarrow> (''undefined'', ''undefined'') | Some r \<Rightarrow> r)
         in if \<not> js_nullish v \<and> \<not> validateForeignKey st databaseName (fst ref) (snd ref) v
            then [ForeignKeyInvalid (tc_columnName c) v] else [])
      else [])"

text \<open>\<open>validateInsert\<close>: the list of violations, and the record with its generated values.\<close>

definition validateInsert ::
  "(nat \<Rightarrow> nat) \<Rightarrow> nat \<Rightarrow> store \<Rightarrow> string \<Rightarrow> string \<Rightarrow> jsval obj \<Rightarrow> tableData
     \<Rightarrow> violation list \<times> jsval obj \<times> nat"
where
  "validateInsert rnd k st databaseName tableName record0 td =
     (case applyAutoValues rnd k record0 td of
        (record, k') \<Rightarrow>
          (concat (map (columnViolations st databaseName tableName record) (colunas td))
           @ (case constraints td of
                None \<Rightarrow> []
              | Some cs \<Rightarrow> concat (map (foreignKeyViolations st databaseName record) cs)),
           record, k'))"

text \<open>The key of the next record: \<open>reg_\<close> followed by the number of records plus one.\<close>

definition recordKey :: "nat \<Rightarrow> string" where
  "recordKey n = ''reg_'' @ digits_of_nat n"

definition nextRecordKey :: "jsval obj obj option \<Rightarrow> string" where
  "nextRecordKey regs = recordKey (length (case regs of None \<Rightarrow> [] | Some r \<Rightarrow> r) + 1)"

definition putRecord :: "tableData \<Rightarrow> jsval obj \<Rightarrow> tableData" where
  "putRecord td record =
     td\<lparr>registros :=
          Some (obj_set (case registros td of None \<Rightarrow> [] | Some r \<Rightarrow> r)
                  (nextRecordKey (registros td)) record)\<rparr>"

text \<open>\<open>StorageManager.insertRecord\<close>.\<close>

definition insertRecord ::
  "(nat \<Rightarrow> nat) \<Rightarrow> nat \<Rightarrow> store \<Rightarrow> string \<Rightarrow> string \<Rightarrow> jsval obj
     \<Rightarrow> error + (reply \<times> store \<times> nat)"
where
  "insertRecord rnd k st databaseName tableName record0 =
     (case loadTable st databaseName tableName of
        None \<Rightarrow> Inl (TableNotFound tableName)
      | Some td \<Rightarrow>
          (case validateInsert rnd k st databaseName tableName record0 td of
             (errors, record, k') \<Rightarrow>
               if errors \<noteq> [] then Inl (ConstraintViolations errors)
               else bindE (saveTable st databaseName tableName (putRecord td record))
                      (\<lambda>st'. Inr (Reply True (RecordInserted tableName) None, st', k'))))"

section \<open>Query executor\<close>

text \<open>A result row is an object from column keys, bare or prefixed by a table name, to values.\<close>

type_synonym row = "jsval obj"

fun evaluateExpression :: "expression \<Rightarrow> row \<Rightarrow> error + jsval" where
  "evaluateExpression (LiteralExpression v ty) row = Inr v"
| "evaluateExpression (IdentifierExpression name tableName) row =
     (let columnName = (case tableName of
                          None \<Rightarrow> name
                        | Some t \<Rightarrow> if t \<noteq> [] then t @ ''.'' @ name else name)
      in Inr (if obj_get row columnName \<noteq> JUndefined then obj_get row columnName
              else obj_get row name))"
| "evaluateExpression (BinaryExpression l operator r) row =
     bindE (evaluateExpression l row) (\<lambda>left.
     bindE (evaluateExpression r row) (\<lambda>right.
       if operator = ''+'' then Inr (js_add left right)
       else if operator = ''-'' then Inr (js_sub left right)
       else if operator = ''*'' then Inr (js_mul left right)
       else if operator = ''/'' then Inr (js_div left right)
       else Inl (UnsupportedMathOperator operator)))"
| "evaluateExpression (AllColumnsExpression tableName) row =
     Inl (UnsupportedExpression ''AllColumnsExpression'')"

text \<open>
  The \<open>switch\<close> of \<open>evaluateCondition\<close> on the operator. Its cases are distinct
  strings, so it is split in two here: the comparisons, which need the two operand values
  only, and the connectives \<open>e\<close>/\<open>and\<close> and \<open>ou\<close>/\<open>or\<close>, which evaluate the
  two operands again as conditions. An operator that is in neither group is not supported.
\<close>

definition compareValues :: "string \<Rightarrow> jsval \<Rightarrow> jsval \<Rightarrow> error + bool" where
  "compareValues operator leftValue rightValue =
     (if operator = ''='' \<or> operator = ''equals'' then Inr (js_loose_eq leftValue rightValue)
      else if operator = ''!='' \<or> operator = ''not_equals''
        then Inr (\<not> js_loose_eq leftValue rightValue)
      else if operator = ''<'' \<or> operator = ''less_than'' then Inr (js_less leftValue rightValue)
      else if operator = ''>'' \<or> operator = ''greater_than''
        then Inr (js_less rightValue leftValue)
      else if operator = ''<='' \<or> operator = ''less_equal'' then Inr (js_le leftValue rightValue)
      else if operator = ''>='' \<or> operator = ''greater_equal''
        then Inr (js_le rightValue leftValue)
      else if operator = ''like'' \<or> operator = ''como''
        then Inr (evaluateLike leftValue rightValue)
      else Inl (UnsupportedOperator operator))"

definition isAnd :: "string \<Rightarrow> bool" where
  "isAnd operator = (operator = ''e'' \<or> operator = ''and'')"

definition isOr :: "string \<Rightarrow> bool" where
  "isOr operator = (operator = ''ou'' \<or> operator = ''or'')"

fun evaluateCondition :: "expression \<Rightarrow> row \<Rightarrow> error + bool" where
  "evaluateCondition (BinaryExpression l operator r) row =
     bindE (evaluateExpression l row) (\<lambda>leftValue.
     bindE (evaluateExpression r row) (\<lambda>rightValue.
       if isAnd operator then
         bindE (evaluateCondition l row) (\<lambda>a. if a then evaluateCondition r row else Inr False)
       else if isOr operator then
         bindE (evaluateCondition l row) (\<lambda>a. if a then Inr True else evaluateCondition r row)
       else compareValues operator leftValue rightValue))"
| "evaluateCondition e row = Inr True"

text \<open>\<open>alias || tableName\<close>.\<close>

definition effectiveName :: "string option \<Rightarrow> string \<Rightarrow> string" where
  "effectiveName alias tableName =
     (case alias of None \<Rightarrow> tableName | Some a \<Rightarrow> if a \<noteq> [] then a else tableName)"

definition convertRecord :: "string \<Rightarrow> jsval obj \<Rightarrow> row" where
  "convertRecord name registro =
     foldl (\<lambda>row (campo, valor). obj_set (obj_set row (name @ ''.'' @ campo) valor) campo valor)
       [] registro"

definition convertTableToResultSet :: "tableData \<Rightarrow> string \<Rightarrow> string option \<Rightarrow> row list" where
  "convertTableToResultSet td tableName alias =
     (case registros td of
        None \<Rightarrow> []
      | Some regs \<Rightarrow> map (convertRecord (effectiveName alias tableName)) (map snd regs))"

text \<open>Running a step over a list until the first error, as a loop that may throw does.\<close>

fun mapE :: "('a \<Rightarrow> error + 'b) \<Rightarrow> 'a list \<Rightarrow> error + 'b list" where
  "mapE f [] = Inr []"
| "mapE f (x # xs) = bindE (f x) (\<lambda>y. bindE (mapE f xs) (\<lambda>ys. Inr (y # ys)))"

fun filterE :: "('a \<Rightarrow> error + bool) \<Rightarrow> 'a list \<Rightarrow> error + 'a list" where
  "filterE p [] = Inr []"
| "filterE p (x # xs) =
     bindE (p x) (\<lambda>b. bindE (filterE p xs) (\<lambda>ys. Inr (if b then x # ys else ys)))"

fun foldE :: "('s \<Rightarrow> 'a \<Rightarrow> error + 's) \<Rightarrow> 's \<Rightarrow> 'a list \<Rightarrow> error + 's" where
  "foldE f s [] = Inr s"
| "foldE f s (x # xs) = bindE (f s x) (\<lambda>s'. foldE f s' xs)"

text \<open>
  The row of \<open>null\<close>s of a LEFT join: the keys of the first right row that start with
  the name of the right table and a dot, each with \<open>null\<close>. Without a right row there
  is no key.
\<close>

definition nullRow :: "row list \<Rightarrow> joinClause \<Rightarrow> row" where
  "nullRow rightResultSet joinClause =
     (let rightTableName = effectiveName (jc_alias joinClause) (jc_tableName joinClause)
      in foldl (\<lambda>nr key. if starts_with key (rightTableName @ ''.'')
                            then obj_set nr key JNull else nr)
           [] (map fst (case rightResultSet of [] \<Rightarrow> [] | r # _ \<Rightarrow> r)))"

text \<open>
  The body of the outer loop of \<open>performJoin\<close> for one left row: the merged rows that
  satisfy the condition, or for a LEFT join without a match the left row extended by the
  row of \<open>null\<close>s.
\<close>

definition joinRow :: "row list \<Rightarrow> joinClause \<Rightarrow> row \<Rightarrow> error + row list" where
  "joinRow rightResultSet joinClause leftRow =
     bindE (filterE (\<lambda>combinedRow. evaluateCondition (jc_onCondition joinClause) combinedRow)
              (map (\<lambda>rightRow. obj_spread leftRow rightRow) rightResultSet)) (\<lambda>matches.
       if length matches > 0 then Inr matches
       else if jc_joinType joinClause = LEFT then
         Inr [obj_spread leftRow (nullRow rightResultSet joinClause)]
       else Inr [])"

definition performJoin :: "row list \<Rightarrow> row list \<Rightarrow> joinClause \<Rightarrow> error + row list" where
  "performJoin leftResultSet rightResultSet joinClause =
     bindE (mapE (joinRow rightResultSet joinClause) leftResultSet) (\<lambda>parts. Inr (concat parts))"

definition applyWhere :: "row list \<Rightarrow> expression \<Rightarrow> error + row list" where
  "applyWhere resultSet condition = filterE (evaluateCondition condition) resultSet"

definition getExpressionName :: "expression \<Rightarrow> string" where
  "getExpressionName e =
     (case e of
        IdentifierExpression name _ \<Rightarrow> name
      | LiteralExpression v _ \<Rightarrow> js_to_string v
      | _ \<Rightarrow> ''expressao'')"

definition projectColumn :: "row \<Rightarrow> row \<Rightarrow> columnExpression \<Rightarrow> error + row" where
  "projectColumn row projectedRow columnExpr =
     (case ce_expression columnExpr of
        AllColumnsExpression tableName \<Rightarrow>
          (case tableName of
             None \<Rightarrow> Inr (obj_spread projectedRow row)
           | Some t \<Rightarrow>
               if t \<noteq> [] then
                 Inr (foldl (\<lambda>pr (key, v). if starts_with key (t @ ''.'')
                                             then obj_set pr (drop (length (t @ ''.'')) key) v else pr)
                        projectedRow row)
               else Inr (obj_spread projectedRow row))
      | e \<Rightarrow>
          bindE (evaluateExpression e row) (\<lambda>v.
            Inr (obj_set projectedRow
                   (case ce_alias columnExpr of
                      None \<Rightarrow> getExpressionName e
                    | Some a \<Rightarrow> if a \<noteq> [] then a else getExpressionName e) v)))"

definition applyProjection :: "row list \<Rightarrow> columnExpression list \<Rightarrow> error + row list" where
  "applyProjection resultSet selectList =
     (if resultSet = [] then Inr resultSet
      else mapE (\<lambda>row. foldE (projectColumn row) [] selectList) resultSet)"

text \<open>
  The comparison function of \<open>applyOrderBy\<close>: the first ordering term on which the two
  rows differ decides, negated for \<open>DESC\<close>. It is positive, negative or zero.
\<close>

fun compareRows :: "orderByExpression list \<Rightarrow> row \<Rightarrow> row \<Rightarrow> error + int" where
  "compareRows [] a b = Inr 0"
| "compareRows (orderExpr # rest) a b =
     bindE (evaluateExpression (ob_expression orderExpr) a) (\<lambda>aValue.
     bindE (evaluateExpression (ob_expression orderExpr) b) (\<lambda>bValue.
       let comparison = (if js_less aValue bValue then -1 else if js_less bValue aValue then 1 else 0)
       in if comparison \<noteq> 0
          then Inr (if ob_direction orderExpr = ''DESC'' then - comparison else comparison)
          else compareRows rest a b))"

text \<open>
  Whether an expression can be evaluated does not depend on the row, so the ordering
  throws exactly when it compares two rows at all and the comparison of some pair throws;
  the rows are then sorted by the sign of the comparison.
\<close>

definition applyOrderBy :: "row list \<Rightarrow> orderByExpression list \<Rightarrow> error + row list" where
  "applyOrderBy resultSet expressions =
     (case resultSet of
        [] \<Rightarrow> Inr resultSet
      | [r] \<Rightarrow> Inr resultSet
      | a # b # _ \<Rightarrow>
          bindE (mapE (\<lambda>(x, y). compareRows expressions x y) (List.product resultSet resultSet))
            (\<lambda>_. Inr (sortBy (\<lambda>x y. (case compareRows expressions x y of
                                         Inr c \<Rightarrow> 0 < c | Inl _ \<Rightarrow> False)) resultSet)))"

text \<open>
  \<open>array.join('|')\<close> on values: \<open>null\<close> and \<open>undefined\<close> give the empty string, any
  other value its string conversion.
\<close>

definition joinElement :: "jsval \<Rightarrow> string" where
  "joinElement v = (if js_nullish v then [] else js_to_string v)"

definition groupKey :: "expression list \<Rightarrow> row \<Rightarrow> error + string" where
  "groupKey expressions row =
     bindE (mapE (\<lambda>expr. evaluateExpression expr row) expressions)
       (\<lambda>vs. Inr (join ''|'' (map joinElement vs)))"

text \<open>
  The groups of \<open>applyGroupBy\<close>, a \<open>Map\<close> from key to rows in order of first insertion,
  and the first row of each group.
\<close>

definition addToGroup :: "(string \<times> row list) list \<Rightarrow> string \<Rightarrow> row \<Rightarrow> (string \<times> row list) list" where
  "addToGroup groups k row =
     (case map_of groups k of
        None \<Rightarrow> groups @ [(k, [row])]
      | Some g \<Rightarrow> AList.update k (g @ [row]) groups)"

definition applyGroupBy :: "row list \<Rightarrow> expression list \<Rightarrow> error + row list" where
  "applyGroupBy resultSet expressions =
     bindE (foldE (\<lambda>groups row. bindE (groupKey expressions row)
                                   (\<lambda>k. Inr (addToGroup groups k row)))
              [] resultSet)
       (\<lambda>groups. Inr (map (\<lambda>(k, g). hd g) groups))"

text \<open>\<open>!this.currentDatabase\<close> holds for \<open>null\<close> and for the empty string.\<close>

definition selectedDatabase :: "string option \<Rightarrow> error + string" where
  "selectedDatabase cur =
     (case cur of
        None \<Rightarrow> Inl NoDatabaseSelected
      | Some d \<Rightarrow> if d = [] then Inl NoDatabaseSelected else Inr d)"

definition loadTableOrThrow :: "store \<Rightarrow> string \<Rightarrow> string \<Rightarrow> error + tableData" where
  "loadTableOrThrow st db tableName =
     (case loadTable st db tableName of None \<Rightarrow> Inl (TableNotFound tableName) | Some td \<Rightarrow> Inr td)"

definition executeSelect ::
  "string option \<Rightarrow> store \<Rightarrow> columnExpression list \<Rightarrow> fromClause \<Rightarrow> expression option
     \<Rightarrow> joinClause list \<Rightarrow> orderByExpression list option \<Rightarrow> expression list option \<Rightarrow> error + reply"
where
  "executeSelect cur st selectList fromClause whereClause joinClauses orderByClause groupByClause =
     bindE (selectedDatabase cur) (\<lambda>db.
     bindE (loadTableOrThrow st db (fc_tableName fromClause)) (\<lambda>mainTable.
     bindE (foldE (\<lambda>resultSet joinClause.
                     bindE (loadTableOrThrow st db (jc_tableName joinClause)) (\<lambda>joinTable.
                       performJoin resultSet
                         (convertTableToResultSet joinTable (jc_tableName joinClause)
                            (jc_alias joinClause))
                         joinClause))
              (convertTableToResultSet mainTable (fc_tableName fromClause) (fc_alias fromClause))
              joinClauses) (\<lambda>joined.
     bindE (case whereClause of None \<Rightarrow> Inr joined | Some c \<Rightarrow> applyWhere joined c) (\<lambda>filtered.
     bindE (case groupByClause of None \<Rightarrow> Inr filtered | Some g \<Rightarrow> applyGroupBy filtered g)
       (\<lambda>grouped.
     bindE (applyProjection grouped selectList) (\<lambda>projected.
     bindE (case orderByClause of None \<Rightarrow> Inr projected | Some ob \<Rightarrow> applyOrderBy projected ob)
       (\<lambda>resultSet.
       Inr (Reply True (RecordsFound (length resultSet)) (Some resultSet)))))))))"

definition validateType :: "jsval \<Rightarrow> string \<Rightarrow> bool" where
  "validateType v expectedType =
     (if toLowerCase expectedType = ''numero'' then js_typeof v = ''number'' \<and> v \<noteq> JNaN
      else if toLowerCase expectedType = ''texto'' then js_typeof v = ''string''
      else if toLowerCase expectedType = ''booleano'' then js_typeof v = ''boolean''
      else True)"

text \<open>The loop of \<open>executeInsert\<close> over the columns, building the new record.\<close>

definition insertColumn :: "tableData \<Rightarrow> jsval obj \<Rightarrow> string \<times> expression \<Rightarrow> error + jsval obj" where
  "insertColumn td newRecord cv =
     (case cv of
        (columnName, valueExpr) \<Rightarrow>
          bindE (evaluateExpression valueExpr []) (\<lambda>v.
            case map_of (colunas td) columnName of
              None \<Rightarrow> Inr (obj_set newRecord columnName v)
            | Some columnDef \<Rightarrow>
                if tipo columnDef \<noteq> [] \<and> \<not> validateType v (tipo columnDef)
                then Inl (InvalidType columnName (tipo columnDef))
                else Inr (obj_set newRecord columnName v)))"

definition executeInsert ::
  "string option \<Rightarrow> store \<Rightarrow> string \<Rightarrow> string list option \<Rightarrow> expression list
     \<Rightarrow> error + (reply \<times> store)"
where
  "executeInsert cur st tableName astColumns values =
     bindE (selectedDatabase cur) (\<lambda>db.
     bindE (loadTableOrThrow st db tableName) (\<lambda>td.
       let columns = (case astColumns of None \<Rightarrow> map fst (colunas td) | Some cs \<Rightarrow> cs)
       in if length values \<noteq> length columns then Inl ArityMismatch
          else
            bindE (foldE (insertColumn td) [] (zip columns values)) (\<lambda>newRecord.
            bindE (saveTable st db tableName (putRecord td newRecord)) (\<lambda>st'.
              Inr (Reply True (RecordInserted tableName) None, st')))))"

text \<open>The test \<open>shouldUpdate\<close> or \<open>shouldDelete\<close>: true when there is no WHERE clause.\<close>

definition matchesWhere :: "expression option \<Rightarrow> jsval obj \<Rightarrow> error + bool" where
  "matchesWhere whereClause record =
     (case whereClause of None \<Rightarrow> Inr True | Some c \<Rightarrow> evaluateCondition c record)"

definition updateRecord ::
  "assignment list \<Rightarrow> expression option \<Rightarrow> (string \<times> jsval obj) list \<times> nat \<Rightarrow> string \<times> jsval obj
     \<Rightarrow> error + ((string \<times> jsval obj) list \<times> nat)"
where
  "updateRecord assignments whereClause s entry =
     (case (s, entry) of
        ((done, updatedCount), (regId, record)) \<Rightarrow>
          bindE (matchesWhere whereClause record) (\<lambda>shouldUpdate.
            if shouldUpdate then
              bindE (foldE (\<lambda>r a. bindE (evaluateExpression (as_value a) r)
                                     (\<lambda>newValue. Inr (obj_set r (as_column a) newValue)))
                       record assignments)
                (\<lambda>record'. Inr (done @ [(regId, record')], updatedCount + 1))
            else Inr (done @ [(regId, record)], updatedCount)))"

definition executeUpdate ::
  "string option \<Rightarrow> store \<Rightarrow> string \<Rightarrow> assignment list \<Rightarrow> expression option
     \<Rightarrow> error + (reply \<times> store)"
where
  "executeUpdate cur st tableName assignments whereClause =
     bindE (selectedDatabase cur) (\<lambda>db.
     bindE (loadTableOrThrow st db tableName) (\<lambda>td.
     bindE (foldE (updateRecord assignments whereClause) ([], 0)
              (case registros td of None \<Rightarrow> [] | Some r \<Rightarrow> r)) (\<lambda>(regs, updatedCount).
     bindE (saveTable st db tableName
              (case registros td of None \<Rightarrow> td | Some _ \<Rightarrow> td\<lparr>registros := Some regs\<rparr>)) (\<lambda>st'.
       Inr (Reply True (RecordsUpdated updatedCount tableName) None, st')))))"

definition deleteRecord ::
  "expression option \<Rightarrow> (string \<times> jsval obj) list \<times> nat \<Rightarrow> string \<times> jsval obj
     \<Rightarrow> error + ((string \<times> jsval obj) list \<times> nat)"
where
  "deleteRecord whereClause s entry =
     (case (s, entry) of
        ((remainingRecords, deletedCount), (regId, record)) \<Rightarrow>
          bindE (matchesWhere whereClause record) (\<lambda>shouldDelete.
            if shouldDelete then Inr (remainingRecords, deletedCount + 1)
            else Inr (obj_set remainingRecords regId record, deletedCount)))"

definition executeDelete ::
  "string option \<Rightarrow> store \<Rightarrow> string \<Rightarrow> expression option \<Rightarrow> error + (reply \<times> store)"
where
  "executeDelete cur st tableName whereClause =
     bindE (selectedDatabase cur) (\<lambda>db.
     bindE (loadTableOrThrow st db tableName) (\<lambda>td.
     bindE (foldE (deleteRecord whereClause) ([], 0)
              (case registros td of None \<Rightarrow> [] | Some r \<Rightarrow> r)) (\<lambda>(remainingRecords, deletedCount).
     bindE (saveTable st db tableName (td\<lparr>registros := Some remainingRecords\<rparr>)) (\<lambda>st'.
       Inr (Reply True (RecordsDeleted deletedCount tableName) None, st')))))"

text \<open>\<open>executeCreateTable\<close> hands over the columns only, not the table-level constraints.\<close>

definition executeCreateTable ::
  "string option \<Rightarrow> store \<Rightarrow> string \<Rightarrow> columnDefinition list \<Rightarrow> error + (reply \<times> store)"
where
  "executeCreateTable cur st tableName columns =
     bindE (selectedDatabase cur) (\<lambda>db. createTable st db tableName columns [])"

text \<open>
  \<open>execute\<close>: the dispatch on the kind of statement, with every thrown error turned into
  a failure reply that leaves the store as it was. An array of statements is no statement.
\<close>

definition executeStatement :: "string option \<Rightarrow> store \<Rightarrow> statement \<Rightarrow> error + (reply \<times> store)" where
  "executeStatement cur st stmt =
     (case stmt of
        SelectStatement sl fc wc jcs ob gb \<Rightarrow>
          bindE (executeSelect cur st sl fc wc jcs ob gb) (\<lambda>r. Inr (r, st))
      | InsertStatement t cols vals \<Rightarrow> executeInsert cur st t cols vals
      | UpdateStatement t assignments wc \<Rightarrow> executeUpdate cur st t assignments wc
      | DeleteStatement t wc \<Rightarrow> executeDelete cur st t wc
      | CreateTableStatement t cols tcs \<Rightarrow> executeCreateTable cur st t cols
      | CreateDatabase d \<Rightarrow> Inr (createDatabase st d))"

definition execute :: "string option \<Rightarrow> store \<Rightarrow> ast \<Rightarrow> reply \<times> store" where
  "execute cur st a =
     (case (case a of Single stmt \<Rightarrow> executeStatement cur st stmt | Several _ \<Rightarrow> Inl NotImplemented) of
        Inl e \<Rightarrow> (Reply False (ExecutionError e) None, st)
      | Inr r \<Rightarrow> r)"

text \<open>
  One command as the command line and the test scripts run it: tokenize, parse, execute.
  A lexical or syntax error is thrown past \<open>execute\<close> and leaves the store as it was.
\<close>

definition executeCommand :: "string option \<Rightarrow> store \<Rightarrow> string \<Rightarrow> error + (reply \<times> store)" where
  "executeCommand cur st sql =
     bindE (tokenize sql) (\<lambda>tokens.
     bindE (parse tokens) (\<lambda>a. Inr (execute cur st a)))"

section \<open>Command sequences and the contents of a column\<close>

text \<open>
  A sequence of commands as the test scripts run it: each command goes through
  \<open>executeCommand\<close>, a thrown error is reported, and the next command follows.
\<close>

fun executeCommands ::
  "string option \<Rightarrow> store \<Rightarrow> string list \<Rightarrow> (error + reply) list \<times> store"
where
  "executeCommands cur st [] = ([], st)"
| "executeCommands cur st (sql # rest) =
     (case executeCommand cur st sql of
        Inl e \<Rightarrow> (case executeCommands cur st rest of (out, st') \<Rightarrow> (Inl e # out, st'))
      | Inr (r, st1) \<Rightarrow> (case executeCommands cur st1 rest of (out, st') \<Rightarrow> (Inr r # out, st')))"




section \<open>Properties of the lexer\<close>







section \<open>Properties of the query executor\<close>

text \<open>
  Claim C10. \<open>evaluateLike\<close> has no failing branch: it returns a truth value for every
  pair of operands. When the matched value or the pattern is not a string (\<open>null\<close>, a
  number, ...) that value is \<open>false\<close>, and so is the result of the \<open>like\<close>/\<open>como\<close>
  case of the comparison, which is a result and not an error.
\<close>

theorem evaluateLike_non_string:
  "js_typeof v \<noteq> ''string'' \<or> js_typeof pattern \<noteq> ''string'' \<Longrightarrow>
     evaluateLike v pattern = False
     \<and> compareValues ''like'' v pattern = Inr False
     \<and> compareValues ''como'' v pattern = Inr False"
  by (cases v; cases pattern) (auto simp: compareValues_def)

theorem evaluateLike_non_string_witness:
  "js_typeof JNull \<noteq> ''string''
   \<and> evaluateLike JNull (JStr ''jo%'') = False
   \<and> compareValues ''como'' JNull (JStr ''jo%'') = Inr False"
proof -
  have h: "js_typeof JNull \<noteq> ''string'' \<or> js_typeof (JStr ''jo%'') \<noteq> ''string''"
    by simp
  from evaluateLike_non_string [OF h] show ?thesis
    by simp
qed

section \<open>Properties of the constraint validator\<close>

lemma obj_get_set_same: "obj_get (obj_set ob k v) k = v"
  by (simp add: obj_get_def obj_set_def update_conv')

lemma obj_get_set_other: "k' \<noteq> k \<Longrightarrow> obj_get (obj_set ob k v) k' = obj_get ob k'"
  by (simp add: obj_get_def obj_set_def update_conv')

lemma autoIncrementStep_other:
  "c \<noteq> columnName \<Longrightarrow>
     obj_get (autoIncrementStep td columnName cs record) c = obj_get record c"
  by (simp add: autoIncrementStep_def obj_get_set_other)

lemma uuidStep_other:
  "c \<noteq> columnName \<Longrightarrow> obj_get (fst (uuidStep rnd columnName ty s)) c = obj_get (fst s) c"
  by (cases s) (auto simp: uuidStep_def obj_get_set_other split: prod.splits)

lemma defaultStep_other:
  "c \<noteq> columnName \<Longrightarrow> obj_get (fst (defaultStep rnd columnName ty cs s)) c = obj_get (fst s) c"
  by (cases s) (auto simp: defaultStep_def obj_get_set_other split: prod.splits option.splits)

lemma applyAutoColumn_other:
  "c \<noteq> fst col \<Longrightarrow> obj_get (fst (applyAutoColumn rnd td s col)) c = obj_get (fst s) c"
  by (cases col)
     (simp add: applyAutoColumn_def Let_def defaultStep_other uuidStep_other autoIncrementStep_other)

lemma applyAutoColumns_other:
  "c \<notin> fst ` set cols \<Longrightarrow>
     obj_get (fst (foldl (applyAutoColumn rnd td) s cols)) c = obj_get (fst s) c"
  by (induction cols arbitrary: s) (auto simp: applyAutoColumn_other)

lemma uuidStep_keep:
  "ty \<noteq> ''uuid'' \<or> js_truthy (obj_get (fst s) columnName) \<Longrightarrow>
     uuidStep rnd columnName ty s = s"
  by (cases s) (auto simp: uuidStep_def)

lemma defaultStep_keep:
  "\<not> js_nullish (obj_get (fst s) columnName) \<Longrightarrow> defaultStep rnd columnName ty cs s = s"
  by (cases s) (auto simp: defaultStep_def split: option.splits)

text \<open>The next value is a number, never \<open>null\<close> or \<open>undefined\<close>.\<close>

lemma js_add_one_not_nullish: "js_typeof v = ''number'' \<Longrightarrow> \<not> js_nullish (js_add v (JNum 1))"
  by (cases v) (auto simp: js_add_def)

lemma sortInsert_set: "set (sortInsert after x ys) = insert x (set ys)"
  by (induction ys) auto

lemma sortBy_set: "set (sortBy after xs) = set xs"
  unfolding sortBy_def by (induction xs) (simp_all add: sortInsert_set)

lemma next_not_nullish: "\<not> js_nullish (getNextAutoIncrementValue td c)"
proof (cases "registros td")
  case None
  then show ?thesis by (simp add: getNextAutoIncrementValue_def)
next
  case (Some regs)
  define vals where "vals = sortBy (\<lambda>a b. num_less (JNum 0) (js_sub b a))
                         (filter (\<lambda>v. js_typeof v = ''number'')
                            (map (\<lambda>r. obj_get r c) (map snd regs)))"
  have ty: "\<forall>v \<in> set vals. js_typeof v = ''number''"
    unfolding vals_def by (simp add: sortBy_set)
  have eq: "getNextAutoIncrementValue td c = (case vals of [] \<Rightarrow> JNum 1 | v # _ \<Rightarrow> js_add v (JNum 1))"
    unfolding getNextAutoIncrementValue_def vals_def Let_def Some by simp
  show ?thesis
    unfolding eq using ty by (cases vals) (simp_all add: js_add_one_not_nullish)
qed

lemma applyAutoColumn_self:
  assumes "''AUTO_INCREMENT'' \<in> set (parseConstraints (constraintText cd))"
      and "\<not> js_truthy (obj_get (fst s) c)"
      and "tipo cd \<noteq> ''uuid'' \<or> js_truthy (getNextAutoIncrementValue td c)"
  shows "obj_get (fst (applyAutoColumn rnd td s (c, cd))) c = getNextAutoIncrementValue td c"
proof -
  let ?r = "autoIncrementStep td c (parseConstraints (constraintText cd)) (fst s)"
  have a: "obj_get ?r c = getNextAutoIncrementValue td c"
    using assms(1,2) by (simp add: autoIncrementStep_def obj_get_set_same)
  have u: "uuidStep rnd c (tipo cd) (?r, snd s) = (?r, snd s)"
    by (rule uuidStep_keep) (use assms(3) a in auto)
  have d: "defaultStep rnd c (tipo cd) (parseConstraints (constraintText cd)) (?r, snd s) = (?r, snd s)"
    by (rule defaultStep_keep) (simp add: a next_not_nullish)
  show ?thesis
    by (simp add: applyAutoColumn_def Let_def u d a)
qed

lemma applyAutoValues_assigns:
  assumes "distinct (map fst (colunas td))"
      and "(c, cd) \<in> set (colunas td)"
      and "''AUTO_INCREMENT'' \<in> set (parseConstraints (constraintText cd))"
      and "\<not> js_truthy (obj_get record c)"
      and "tipo cd \<noteq> ''uuid'' \<or> js_truthy (getNextAutoIncrementValue td c)"
  shows "obj_get (fst (applyAutoValues rnd k record td)) c = getNextAutoIncrementValue td c"
proof -
  obtain pre post where split: "colunas td = pre @ (c, cd) # post"
    using assms(2) by (auto dest: split_list)
  have npre: "c \<notin> fst ` set pre" and npost: "c \<notin> fst ` set post"
    using assms(1) unfolding split by auto
  define s1 where "s1 = foldl (applyAutoColumn rnd td) (record, k) pre"
  have "obj_get (fst s1) c = obj_get record c"
    unfolding s1_def using applyAutoColumns_other [OF npre, of rnd td "(record, k)"] by simp
  then have falsy: "\<not> js_truthy (obj_get (fst s1) c)"
    using assms(4) by simp
  have "obj_get (fst (applyAutoValues rnd k record td)) c
        = obj_get (fst (applyAutoColumn rnd td s1 (c, cd))) c"
    unfolding applyAutoValues_def split s1_def
    using applyAutoColumns_other [OF npost] by simp
  also have "\<dots> = getNextAutoIncrementValue td c"
    by (rule applyAutoColumn_self [OF assms(3) falsy assms(5)])
  finally show ?thesis .
qed









lemma scenarioB_create:
  "executeCommands (Some ''loja'') []
     [''criar banco loja'',
      ''criar tabela usuarios (id: numero primaria chave auto incremento, nome: texto)'']
   = ([Inr (Reply True (DatabaseCreated ''loja'') None),
       Inr (Reply True (TableCreated ''usuarios'') None)],
      [(''loja'',
        [(''usuarios'',
          \<lparr>colunas = [(''id'', ColumnData ''numero'' ''PRIMARY_KEY,AUTO_INCREMENT''),
                      (''nome'', ColumnData ''texto'' [])],
           registros = Some [], constraints = None\<rparr>)])])"
  by code_simp







text \<open>
  Claim C9. The test for a missing auto-increment value is \<open>!record[columnName]\<close>:
  whenever the record holds a falsy value for the column (\<open>0\<close>, the empty string,
  \<open>false\<close>, \<open>null\<close>, \<open>NaN\<close>, or nothing at all), the auto-increment step replaces it
  by the generated next value. That value is the value of the column when
  \<open>applyAutoValues\<close> returns, for a column that is not of type \<open>uuid\<close>.
\<close>

theorem autoIncrement_replaces_falsy:
  assumes "''AUTO_INCREMENT'' \<in> set cs"
      and "\<not> js_truthy (obj_get record c)"
  shows "obj_get (autoIncrementStep td c cs record) c = getNextAutoIncrementValue td c
       \<and> (distinct (map fst (colunas td)) \<and> (c, cd) \<in> set (colunas td)
            \<and> parseConstraints (constraintText cd) = cs \<and> tipo cd \<noteq> ''uuid''
           \<longrightarrow> obj_get (fst (applyAutoValues rnd k record td)) c
                 = getNextAutoIncrementValue td c)"
proof -
  have "obj_get (fst (applyAutoValues rnd k record td)) c = getNextAutoIncrementValue td c"
    if "distinct (map fst (colunas td))" "(c, cd) \<in> set (colunas td)"
       "parseConstraints (constraintText cd) = cs" "tipo cd \<noteq> ''uuid''"
    using that assms by (intro applyAutoValues_assigns) auto
  then show ?thesis
    using assms by (simp add: autoIncrementStep_def obj_get_set_same)
qed

theorem autoIncrement_replaces_falsy_witness:
  "''AUTO_INCREMENT'' \<in> set [''PRIMARY_KEY'', ''AUTO_INCREMENT'']
   \<and> \<not> js_truthy (obj_get [(''id'', JNum 0), (''nome'', JStr ''bia'')] ''id'')
   \<and> obj_get
        (fst (applyAutoValues (\<lambda>k. 0) 0 [(''id'', JNum 0), (''nome'', JStr ''bia'')]
           \<lparr>colunas = [(''id'', ColumnData ''numero'' ''PRIMARY_KEY,AUTO_INCREMENT''),
                       (''nome'', ColumnData ''texto'' [])],
            registros = Some [(''reg_1'', [(''nome'', JStr ''ana''), (''id'', JNum 5)])],
            constraints = None\<rparr>)) ''id''
      = JNum 6"
proof -
  let ?td = "\<lparr>colunas = [(''id'', ColumnData ''numero'' ''PRIMARY_KEY,AUTO_INCREMENT''),
                       (''nome'', ColumnData ''texto'' [])],
            registros = Some [(''reg_1'', [(''nome'', JStr ''ana''), (''id'', JNum 5)])],
            constraints = None\<rparr>"
  have h1: "''AUTO_INCREMENT'' \<in> set [''PRIMARY_KEY'', ''AUTO_INCREMENT'']"
    by simp
  have h2: "\<not> js_truthy (obj_get [(''id'', JNum 0), (''nome'', JStr ''bia'')] ''id'')"
    by (simp add: obj_get_def)
  have side: "distinct (map fst (colunas ?td))
              \<and> (''id'', ColumnData ''numero'' ''PRIMARY_KEY,AUTO_INCREMENT'') \<in> set (colunas ?td)
              \<and> parseConstraints (constraintText (ColumnData ''numero'' ''PRIMARY_KEY,AUTO_INCREMENT''))
                  = [''PRIMARY_KEY'', ''AUTO_INCREMENT'']
              \<and> tipo (ColumnData ''numero'' ''PRIMARY_KEY,AUTO_INCREMENT'') \<noteq> ''uuid''"
    by code_simp
  have nxt: "getNextAutoIncrementValue ?td ''id'' = JNum 6"
    by code_simp
  from autoIncrement_replaces_falsy [OF h1 h2, of ?td "ColumnData ''numero'' ''PRIMARY_KEY,AUTO_INCREMENT''" "\<lambda>k. 0" 0]
  show ?thesis
    using h1 h2 side nxt by simp
qed

section \<open>Properties of whole commands\<close>

text \<open>
  Claim C1. \<open>executeInsert\<close> checks the number of values against the column list and
  each value against the declared type, but it never calls the constraint validator:
  it stores the record and saves the table. On a table whose column \<open>email\<close> is
  declared \<open>unico nao nulo\<close>, as in \<open>test-constraints.js\<close>, two inserts with the same
  address both succeed and the table holds both records, without the auto-increment
  \<open>id\<close>. \<open>StorageManager.insertRecord\<close>, which does call the validator, rejects the
  second record on the same table with the uniqueness violation.
\<close>

theorem executeInsert_skips_validator:
  "executeCommands (Some ''loja'') []
     [''criar banco loja'',
      ''criar tabela usuarios (id: numero auto incremento primaria chave, email: texto unico nao nulo, nome: texto nao nulo)'',
      ''inserir em usuarios (email, nome) valores (\"joao@email.com\", \"joao\")'',
      ''inserir em usuarios (email, nome) valores (\"joao@email.com\", \"joao duplicado\")'']
   = ([Inr (Reply True (DatabaseCreated ''loja'') None),
       Inr (Reply True (TableCreated ''usuarios'') None),
       Inr (Reply True (RecordInserted ''usuarios'') None),
       Inr (Reply True (RecordInserted ''usuarios'') None)],
      [(''loja'',
        [(''usuarios'',
          \<lparr>colunas = [(''id'', ColumnData ''numero'' ''AUTO_INCREMENT,PRIMARY_KEY''),
                      (''email'', ColumnData ''texto'' ''UNIQUE,NOT_NULL''),
                      (''nome'', ColumnData ''texto'' ''NOT_NULL'')],
           registros = Some [(''reg_1'', [(''email'', JStr ''joao@email.com''), (''nome'', JStr ''joao'')]),
                             (''reg_2'', [(''email'', JStr ''joao@email.com''),
                                          (''nome'', JStr ''joao duplicado'')])],
           constraints = None\<rparr>)])])
   \<and> insertRecord (\<lambda>k. 0) 0
        [(''loja'',
          [(''usuarios'',
            \<lparr>colunas = [(''id'', ColumnData ''numero'' ''AUTO_INCREMENT,PRIMARY_KEY''),
                        (''email'', ColumnData ''texto'' ''UNIQUE,NOT_NULL''),
                        (''nome'', ColumnData ''texto'' ''NOT_NULL'')],
             registros = Some [(''reg_1'', [(''email'', JStr ''joao@email.com''), (''nome'', JStr ''joao'')])],
             constraints = None\<rparr>)])]
        ''loja'' ''usuarios'' [(''email'', JStr ''joao@email.com''), (''nome'', JStr ''joao duplicado'')]
      = Inl (ConstraintViolations [UniqueDuplicate ''email'' (JStr ''joao@email.com'')])"
  by code_simp

text \<open>
  Claim C2, as stated. The commands of scenario A written with English keywords are not
  commands of the dialect: the keyword table has no entry for \<open>create\<close>, \<open>insert\<close> or
  \<open>select\<close>, so each of them is a syntax error and the store stays empty. Written with
  the keywords of the dialect, the last reply is not the single row
  \<open>{id: 1, nome: "Mouse", preco: 50}\<close>. And \<open>criar banco\<close> does not select the
  database it creates: without a selected database the table is not created.
\<close>

theorem scenarioA_counterexample:
  "executeCommands (Some ''loja'') []
     [''CREATE DATABASE loja'',
      ''CREATE TABLE produtos (id: numero, nome: texto, preco: numero)'',
      ''INSERT INTO produtos (id, nome, preco) VALUES (1, \"Mouse\", 50)'',
      ''SELECT * FROM produtos WHERE preco > 10'']
   = ([Inl (SyntaxUnknownCommand 6 (JStr ''create'')),
       Inl (SyntaxUnknownCommand 6 (JStr ''create'')),
       Inl (SyntaxUnknownCommand 6 (JStr ''insert'')),
       Inl (SyntaxUnknownCommand 6 (JStr ''select''))], [])
   \<and> last (fst (executeCommands (Some ''loja'') []
        [''criar banco loja'',
         ''criar tabela produtos (id: numero, nome: texto, preco: numero)'',
         ''inserir em produtos (id, nome, preco) valores (1, \"Mouse\", 50)'',
         ''selecionar * de produtos onde preco > 10'']))
      \<noteq> Inr (Reply True (RecordsFound 1)
               (Some [[(''id'', JNum 1), (''nome'', JStr ''Mouse''), (''preco'', JNum 50)]]))
   \<and> fst (executeCommands None []
        [''criar banco loja'',
         ''criar tabela produtos (id: numero, nome: texto, preco: numero)''])
      = [Inr (Reply True (DatabaseCreated ''loja'') None),
         Inr (Reply False (ExecutionError NoDatabaseSelected) None)]"
  by code_simp

text \<open>
  Claim C2, amended. Starting from an empty store, with \<open>loja\<close> as the selected
  database of the executor, the commands \<open>criar banco loja\<close>,
  \<open>criar tabela produtos (id: numero, nome: texto, preco: numero)\<close>,
  \<open>inserir em produtos (id, nome, preco) valores (1, "Mouse", 50)\<close> and
  \<open>selecionar * de produtos onde preco > 10\<close> succeed in turn, and the last one returns
  exactly one row. The row maps \<open>id\<close> and \<open>produtos.id\<close> to 1, \<open>nome\<close> and
  \<open>produtos.nome\<close> to \<open>mouse\<close> (a string literal is lower-cased with the rest of the
  input), \<open>preco\<close> and \<open>produtos.preco\<close> to 50.
\<close>

theorem scenarioA:
  "executeCommands (Some ''loja'') []
     [''criar banco loja'',
      ''criar tabela produtos (id: numero, nome: texto, preco: numero)'',
      ''inserir em produtos (id, nome, preco) valores (1, \"Mouse\", 50)'',
      ''selecionar * de produtos onde preco > 10'']
   = ([Inr (Reply True (DatabaseCreated ''loja'') None),
       Inr (Reply True (TableCreated ''produtos'') None),
       Inr (Reply True (RecordInserted ''produtos'') None),
       Inr (Reply True (RecordsFound 1)
             (Some [[(''produtos.id'', JNum 1), (''id'', JNum 1),
                     (''produtos.nome'', JStr ''mouse''), (''nome'', JStr ''mouse''),
                     (''produtos.preco'', JNum 50), (''preco'', JNum 50)]]))],
      [(''loja'',
        [(''produtos'',
          \<lparr>colunas = [(''id'', ColumnData ''numero'' []), (''nome'', ColumnData ''texto'' []),
                      (''preco'', ColumnData ''numero'' [])],
           registros = Some [(''reg_1'', [(''id'', JNum 1), (''nome'', JStr ''mouse''),
                                          (''preco'', JNum 50)])],
           constraints = None\<rparr>)])])"
  by code_simp

end
